theory Spec2Isabelle
  imports Main "HOL-Library.AList" "HOL-Library.Sublist"
begin

section \<open>JavaScript values\<close>

text \<open>
  The plugin (\<^verbatim>\<open>src/warmer.js\<close>) builds plain JavaScript documents: strings, arrays and
  object literals. An object is an association list in property order; reading a property
  is \<^const>\<open>map_of\<close>, and the assignment \<^verbatim>\<open>o[k] = v\<close> is \<^const>\<open>AList.update\<close>
  (an existing property keeps its place, a new one goes last).

  A JavaScript string is the list of the bytes of its UTF-8 encoding, an ASCII character
  being one byte. The names the plugin handles (warmer names, Lambda function names,
  environment variable names) are ASCII, and the case conversions below are the ASCII
  part of \<^verbatim>\<open>toLowerCase\<close> and \<^verbatim>\<open>toUpperCase\<close>. Numbers inside documents are integers.
\<close>

datatype jsval =
    Undefined
  | Null
  | Bool bool
  | Num int
  | Str string
  | Arr "jsval list"
  | Obj "(string \<times> jsval) list"

text \<open>What \<^verbatim>\<open>if (v)\<close>, \<^verbatim>\<open>v ? a : b\<close> and \<^verbatim>\<open>v || w\<close> test.\<close>

fun truthy :: "jsval \<Rightarrow> bool" where
  "truthy Undefined = False"
| "truthy Null = False"
| "truthy (Bool b) = b"
| "truthy (Num n) = (n \<noteq> 0)"
| "truthy (Str s) = (s \<noteq> [])"
| "truthy (Arr _) = True"
| "truthy (Obj _) = True"

text \<open>\<^verbatim>\<open>a || b\<close>\<close>

definition js_or :: "jsval \<Rightarrow> jsval \<Rightarrow> jsval" where
  "js_or a b = (if truthy a then a else b)"

text \<open>Property access \<^verbatim>\<open>v.k\<close> on a document; \<^verbatim>\<open>undefined\<close> when there is none.\<close>

fun prop_of :: "string \<Rightarrow> jsval \<Rightarrow> jsval" where
  "prop_of k (Obj kvs) = (case map_of kvs k of Some v \<Rightarrow> v | None \<Rightarrow> Undefined)"
| "prop_of k _ = Undefined"

fun elements :: "jsval \<Rightarrow> jsval list" where
  "elements (Arr xs) = xs"
| "elements _ = []"

definition toLowerChar :: "char \<Rightarrow> char" where
  "toLowerChar c =
     (let n = (of_char c :: nat) in if 65 \<le> n \<and> n \<le> 90 then char_of (n + 32) else c)"

definition toUpperChar :: "char \<Rightarrow> char" where
  "toUpperChar c =
     (let n = (of_char c :: nat) in if 97 \<le> n \<and> n \<le> 122 then char_of (n - 32) else c)"

definition toLowerCase :: "string \<Rightarrow> string" where
  "toLowerCase s = map toLowerChar s"

definition toUpperCase :: "string \<Rightarrow> string" where
  "toUpperCase s = map toUpperChar s"

text \<open>\<^verbatim>\<open>s.split(sep)\<close> for a one-character separator, and \<^verbatim>\<open>parts.join(glue)\<close>.\<close>

fun split_str :: "char \<Rightarrow> string \<Rightarrow> string list" where
  "split_str sep [] = [[]]"
| "split_str sep (c # cs) =
     (if c = sep then [] # split_str sep cs
      else (case split_str sep cs of
              [] \<Rightarrow> [[c]]
            | p # ps \<Rightarrow> (c # p) # ps))"

fun join_str :: "string \<Rightarrow> string list \<Rightarrow> string" where
  "join_str glue [] = []"
| "join_str glue [p] = p"
| "join_str glue (p # q # ps) = p @ glue @ join_str glue (q # ps)"

section \<open>The data the synthesizers work on\<close>

text \<open>
  \<^verbatim>\<open>service.resources\<close> and \<^verbatim>\<open>service.resources.Resources\<close> are tested with
  \<^verbatim>\<open>typeof x !== 'object'\<close>. A slot is what such a place can hold: nothing
  (\<^verbatim>\<open>undefined\<close>), \<^verbatim>\<open>null\<close>, a primitive (a string, number or boolean), or an
  object. \<^verbatim>\<open>typeof null\<close> is \<^verbatim>\<open>'object'\<close>.
\<close>

datatype 'a slot = NotSet | IsNull | Primitive | Object 'a

fun typeof_object :: "'a slot \<Rightarrow> bool" where
  "typeof_object NotSet = False"
| "typeof_object IsNull = True"
| "typeof_object Primitive = False"
| "typeof_object (Object _) = True"

record ResourcesSection =
  Resources :: "(string \<times> jsval) list slot"
  otherSections :: "(string \<times> jsval) list"

record Service =
  service :: string
  resources :: "ResourcesSection slot"
  serviceFunctions :: "(string \<times> jsval) list"

text \<open>An element of \<^verbatim>\<open>warmerConfig.functions\<close>: \<^verbatim>\<open>{ name }\<close>.\<close>

record FunctionRef =
  fnName :: string

text \<open>
  The warmer configuration. \<open>configName\<close> is its \<^verbatim>\<open>name\<close> field,
  \<open>warmerFunctions\<close> its \<^verbatim>\<open>functions\<close> field and \<open>tracingOption\<close> its \<^verbatim>\<open>tracing\<close>
  field; \<open>serviceFunctions\<close> above is \<^verbatim>\<open>service.functions\<close>. The fields the code only passes on are documents.
\<close>

record WarmerConfig =
  configName :: string
  role :: jsval
  roleName :: jsval
  warmerFunctions :: "FunctionRef list"
  events :: jsval
  memorySize :: jsval
  timeout :: jsval
  environment :: "(string \<times> string) list"
  tracingOption :: jsval
  logRetentionInDays :: jsval
  tags :: jsval
  vpc :: jsval
  architecture :: jsval
  package :: jsval
  pathHandler :: string

datatype error = TypeError | RangeError | InvokeError string | SystemError string

datatype completion = Returned | Threw error

section \<open>RoleSynthesizer: \<^verbatim>\<open>addWarmUpFunctionRoleToResources\<close>\<close>

text \<open>
  \<^verbatim>\<open>capitalize\<close> comes from \<^verbatim>\<open>./utils\<close>, which is not part of the sources at hand;
  it is a parameter of everything that uses it.
\<close>

definition roleKey :: "(string \<Rightarrow> string) \<Rightarrow> string \<Rightarrow> string" where
  "roleKey capitalize warmerName = ''WarmUpPlugin'' @ capitalize warmerName @ ''Role''"

definition logsArn :: string where
  "logsArn = ''arn:${AWS::Partition}:logs:${AWS::Region}:${AWS::AccountId}:log-group:/aws/lambda/''"

definition functionArn :: string where
  "functionArn = ''arn:${AWS::Partition}:lambda:${AWS::Region}:${AWS::AccountId}:function:''"

text \<open>The object literal of lines 25 to 98.\<close>

definition roleDocument :: "Service \<Rightarrow> string \<Rightarrow> string \<Rightarrow> WarmerConfig \<Rightarrow> jsval" where
  "roleDocument svc stage warmerName warmerConfig =
     Obj [
       (''Type'', Str ''AWS::IAM::Role''),
       (''Properties'', Obj [
         (''Path'', Str ''/''),
         (''RoleName'', js_or (roleName warmerConfig)
            (Obj [(''Fn::Join'', Arr [Str ''-'',
               Arr [Str (service svc), Str stage, Obj [(''Ref'', Str ''AWS::Region'')],
                    Str (toLowerCase warmerName), Str ''role'']])])),
         (''AssumeRolePolicyDocument'', Obj [
           (''Version'', Str ''2012-10-17''),
           (''Statement'', Arr [
             Obj [
               (''Effect'', Str ''Allow''),
               (''Principal'', Obj [(''Service'', Arr [Str ''lambda.amazonaws.com''])]),
               (''Action'', Str ''sts:AssumeRole'')]])]),
         (''Policies'', Arr [
           Obj [
             (''PolicyName'', Obj [(''Fn::Join'', Arr [Str ''-'',
                Arr [Str (service svc), Str stage, Str ''warmer'',
                     Str (toLowerCase warmerName), Str ''policy'']])]),
             (''PolicyDocument'', Obj [
               (''Version'', Str ''2012-10-17''),
               (''Statement'', Arr [
                 Obj [
                   (''Effect'', Str ''Allow''),
                   (''Action'', Arr [Str ''logs:CreateLogGroup'', Str ''logs:CreateLogStream'']),
                   (''Resource'', Arr [
                      Obj [(''Fn::Sub'', Str (logsArn @ configName warmerConfig @ '':*''))]])],
                 Obj [
                   (''Effect'', Str ''Allow''),
                   (''Action'', Arr [Str ''logs:PutLogEvents'']),
                   (''Resource'', Arr [
                      Obj [(''Fn::Sub'', Str (logsArn @ configName warmerConfig @ '':*:*''))]])],
                 Obj [
                   (''Effect'', Str ''Allow''),
                   (''Action'', Arr [Str ''lambda:InvokeFunction'']),
                   (''Resource'', Arr (map
                      (\<lambda>fn. Obj [(''Fn::Sub'', Str (functionArn @ fnName fn @ ''*''))])
                      (warmerFunctions warmerConfig)))],
                 Obj [
                   (''Effect'', Str ''Allow''),
                   (''Action'', Arr [
                      Str ''ec2:CreateNetworkInterface'',
                      Str ''ec2:DescribeNetworkInterfaces'',
                      Str ''ec2:DetachNetworkInterface'',
                      Str ''ec2:DeleteNetworkInterface'']),
                   (''Resource'', Str ''*'')]])])]])])]"

text \<open>
  The function mutates \<^verbatim>\<open>warmerConfig\<close> and \<^verbatim>\<open>service\<close> in place; the model returns
  both, with how the call ended. Reading a property of \<^verbatim>\<open>null\<close> (line 19) and assigning
  one on \<^verbatim>\<open>null\<close> (line 25) throw a \<^verbatim>\<open>TypeError\<close>; what was assigned before stays.
\<close>

definition addWarmUpFunctionRoleToResources ::
  "(string \<Rightarrow> string) \<Rightarrow> Service \<Rightarrow> string \<Rightarrow> string \<Rightarrow> WarmerConfig
     \<Rightarrow> completion \<times> Service \<times> WarmerConfig" where
  "addWarmUpFunctionRoleToResources capitalize svc stage warmerName warmerConfig =
     (let warmerConfig1 = warmerConfig\<lparr>role := Str (roleKey capitalize warmerName)\<rparr>;
          svc1 = (if \<not> typeof_object (resources svc)
                  then svc\<lparr>resources := Object \<lparr>Resources = NotSet, otherSections = []\<rparr>\<rparr>
                  else svc)
      in case resources svc1 of
           Object section \<Rightarrow>
             (let section1 = (if \<not> typeof_object (Resources section)
                              then section\<lparr>Resources := Object []\<rparr>
                              else section)
              in case Resources section1 of
                   Object docs \<Rightarrow>
                     (Returned,
                      svc1\<lparr>resources := Object (section1\<lparr>Resources := Object
                        (AList.update (roleKey capitalize warmerName)
                           (roleDocument svc1 stage warmerName warmerConfig1) docs)\<rparr>)\<rparr>,
                      warmerConfig1)
                 | _ \<Rightarrow> (Threw TypeError, svc1\<lparr>resources := Object section1\<rparr>, warmerConfig1))
         | _ \<Rightarrow> (Threw TypeError, svc1, warmerConfig1))"

section \<open>FunctionDefinitionSynthesizer: \<^verbatim>\<open>addWarmUpFunctionToService\<close>\<close>

text \<open>
  \<^verbatim>\<open>path.sep\<close> is the host's separator, a parameter; \<^verbatim>\<open>path.posix.sep\<close> is the slash.
  A spread \<^verbatim>\<open>...(c ? { k: v } : {})\<close> adds the property when \<^verbatim>\<open>c\<close> is truthy.
\<close>

definition spread_if :: "bool \<Rightarrow> string \<Rightarrow> jsval \<Rightarrow> (string \<times> jsval) list" where
  "spread_if c k v = (if c then [(k, v)] else [])"

definition functionKey :: "(string \<Rightarrow> string) \<Rightarrow> string \<Rightarrow> string" where
  "functionKey capitalize warmerName = ''warmUpPlugin'' @ capitalize warmerName"

definition functionEntry :: "char \<Rightarrow> string \<Rightarrow> WarmerConfig \<Rightarrow> jsval" where
  "functionEntry sep warmerName warmerConfig =
     Obj ([
       (''description'',
          Str (''Serverless WarmUp Plugin (warmer '' @ [CHR 0x22] @ warmerName @ [CHR 0x22] @ '')'')),
       (''events'', events warmerConfig),
       (''handler'', Str (join_str ''/'' (split_str sep (pathHandler warmerConfig)))),
       (''memorySize'', memorySize warmerConfig),
       (''name'', Str (configName warmerConfig))]
      @ spread_if (truthy (architecture warmerConfig)) ''architecture'' (architecture warmerConfig)
      @ [
       (''runtime'', Str ''nodejs22.x''),
       (''package'', package warmerConfig),
       (''timeout'', timeout warmerConfig)]
      @ spread_if (length (environment warmerConfig) \<noteq> 0) ''environment''
          (Obj (map (\<lambda>(k, v). (k, Str v)) (environment warmerConfig)))
      @ spread_if (tracingOption warmerConfig \<noteq> Undefined) ''tracing'' (tracingOption warmerConfig)
      @ spread_if (logRetentionInDays warmerConfig \<noteq> Undefined) ''logRetentionInDays''
          (logRetentionInDays warmerConfig)
      @ spread_if (truthy (roleName warmerConfig)) ''roleName'' (roleName warmerConfig)
      @ spread_if (truthy (role warmerConfig)) ''role'' (role warmerConfig)
      @ spread_if (truthy (tags warmerConfig)) ''tags'' (tags warmerConfig)
      @ spread_if (truthy (vpc warmerConfig)) ''vpc'' (vpc warmerConfig)
      @ [(''layers'', Arr [])])"

definition addWarmUpFunctionToService ::
  "(string \<Rightarrow> string) \<Rightarrow> char \<Rightarrow> Service \<Rightarrow> string \<Rightarrow> WarmerConfig \<Rightarrow> Service" where
  "addWarmUpFunctionToService capitalize sep svc warmerName warmerConfig =
     svc\<lparr>serviceFunctions := AList.update (functionKey capitalize warmerName)
       (functionEntry sep warmerName warmerConfig) (serviceFunctions svc)\<rparr>"

section \<open>Numbers, \<^verbatim>\<open>parseInt\<close> and \<^verbatim>\<open>Array(n)\<close>\<close>

text \<open>
  The numbers of the generated script are results of \<^verbatim>\<open>parseInt\<close> and of counting: \<^verbatim>\<open>NaN\<close>,
  an infinity, or an integer that is a double. Minus zero is not told apart from zero:
  \<^verbatim>\<open>String\<close> prints both as \<^verbatim>\<open>0\<close> and \<^verbatim>\<open>Array\<close> takes both as the length \<open>0\<close>.
\<close>

datatype number = NaN | Integer int | PlusInfinity | MinusInfinity

text \<open>
  The Number value of a mathematical integer: the nearest double, the even one of two
  that are equally near, and an infinity from \<open>2^1024\<close> on. A double has 53 significant
  bits, so an integer of at most 53 bits is its own value.
\<close>

fun bitLength :: "nat \<Rightarrow> nat" where
  "bitLength n = (if n = 0 then 0 else Suc (bitLength (n div 2)))"

declare bitLength.simps [simp del]

definition roundToDouble :: "nat \<Rightarrow> nat" where
  "roundToDouble m =
     (let b = bitLength m in
      if b \<le> 53 then m
      else (let sh = b - 53;
                q = m div 2 ^ sh;
                r = m mod 2 ^ sh;
                half = 2 ^ (sh - 1)
            in (if half < r \<or> (r = half \<and> odd q) then q + 1 else q) * 2 ^ sh))"

definition toNumber :: "int \<Rightarrow> number" where
  "toNumber i =
     (let m = roundToDouble (nat \<bar>i\<bar>) in
      if 1024 < bitLength m then (if i < 0 then MinusInfinity else PlusInfinity)
      else Integer (if i < 0 then - int m else int m))"

text \<open>
  \<^verbatim>\<open>String(n)\<close> for an integer \<open>n\<close>. An integer below \<open>10^21\<close> in magnitude is written with all its decimal
  digits. From \<open>10^21\<close> on the text is the exponent form of the shortest digit string that
  still reads back as the same double (\<open>1e+21\<close>, \<open>1.5e+21\<close>): \<open>shortestDigits\<close> looks
  for the smallest count \<open>k\<close> of leading digits, trying for each the multiple of the
  power of ten just below and the one just above the number and taking the nearer one
  that rounds to the number.
\<close>

fun decimal :: "nat \<Rightarrow> string" where
  "decimal n =
     (if n < 10 then [char_of (48 + n)] else decimal (n div 10) @ [char_of (48 + n mod 10)])"

declare decimal.simps [simp del]

definition nearestMultiple :: "nat \<Rightarrow> nat \<Rightarrow> nat option" where
  "nearestMultiple m scale =
     (let lo = m div scale;
          a = lo * scale;
          b = (lo + 1) * scale;
          fitsA = (roundToDouble a = m);
          fitsB = (roundToDouble b = m)
      in if fitsA \<and> fitsB
         then Some (if m - a < b - m then a
                    else if b - m < m - a then b
                    else if even lo then a else b)
         else if fitsA then Some a
         else if fitsB then Some b
         else None)"

definition shortestDigits :: "nat \<Rightarrow> nat \<times> nat" where
  "shortestDigits m =
     (let n = length (decimal m) in
      case List.map_filter
             (\<lambda>k. map_option (Pair k) (nearestMultiple m (10 ^ (n - k)))) [1..<18] of
        [] \<Rightarrow> (n, m)
      | found # _ \<Rightarrow> found)"

definition exponentForm :: "nat \<Rightarrow> string" where
  "exponentForm m =
     (case shortestDigits m of
        (k, v) \<Rightarrow>
          (case take k (decimal v) of
             [] \<Rightarrow> []
           | d # rest \<Rightarrow> d # (if rest = [] then [] else ''.'' @ rest))
          @ ''e+'' @ decimal (length (decimal v) - 1))"

definition naturalToString :: "nat \<Rightarrow> string" where
  "naturalToString m =
     (if int m < 1000000000000000000000 then decimal m else exponentForm m)"

fun numberToString :: "number \<Rightarrow> string" where
  "numberToString NaN = ''NaN''"
| "numberToString PlusInfinity = ''Infinity''"
| "numberToString MinusInfinity = ''-Infinity''"
| "numberToString (Integer n) =
     (if n < 0 then ''-'' @ naturalToString (nat (- n)) else naturalToString (nat n))"

declare numberToString.simps [simp del]

text \<open>
  The white space that \<^verbatim>\<open>parseInt\<close> skips, in UTF-8: TAB, LF, VT, FF, CR and the space;
  U+00A0; U+1680; U+2000 to U+200A, U+2028, U+2029 and U+202F; U+205F; U+3000; U+FEFF.
  \<open>whiteSpaceLength\<close> is the number of bytes of the white-space character that a byte
  sequence starts with, \<open>0\<close> when it starts with none.
\<close>

definition asciiWhiteSpace :: "nat \<Rightarrow> bool" where
  "asciiWhiteSpace a = ((9 \<le> a \<and> a \<le> 13) \<or> a = 32)"

definition wideWhiteSpace :: "nat \<Rightarrow> nat \<Rightarrow> nat \<Rightarrow> bool" where
  "wideWhiteSpace a b c =
     ((a = 225 \<and> b = 154 \<and> c = 128)
      \<or> (a = 226 \<and> b = 128 \<and> ((128 \<le> c \<and> c \<le> 138) \<or> c = 168 \<or> c = 169 \<or> c = 175))
      \<or> (a = 226 \<and> b = 129 \<and> c = 159)
      \<or> (a = 227 \<and> b = 128 \<and> c = 128)
      \<or> (a = 239 \<and> b = 187 \<and> c = 191))"

fun whiteSpaceLength :: "nat list \<Rightarrow> nat" where
  "whiteSpaceLength [] = 0"
| "whiteSpaceLength [a] = (if asciiWhiteSpace a then 1 else 0)"
| "whiteSpaceLength [a, b] =
     (if asciiWhiteSpace a then 1 else if a = 194 \<and> b = 160 then 2 else 0)"
| "whiteSpaceLength (a # b # c # rest) =
     (if asciiWhiteSpace a then 1
      else if a = 194 \<and> b = 160 then 2
      else if wideWhiteSpace a b c then 3
      else 0)"

function skipWhiteSpace :: "string \<Rightarrow> string" where
  "skipWhiteSpace s =
     (case whiteSpaceLength (map of_char (take 3 s)) of
        0 \<Rightarrow> s
      | Suc n \<Rightarrow> skipWhiteSpace (drop (Suc n) s))"
  by pat_completeness auto
termination
proof (relation "measure length")
  show "wf (measure length)"
    by simp
next
  fix s :: string and n
  assume "whiteSpaceLength (map of_char (take 3 s)) = Suc n"
  then have "s \<noteq> []"
    by (cases s) auto
  then show "(drop (Suc n) s, s) \<in> measure length"
    by (cases s) auto
qed

declare skipWhiteSpace.simps [simp del]

definition digitValue :: "char \<Rightarrow> nat option" where
  "digitValue c =
     (let n = (of_char c :: nat) in
      if 48 \<le> n \<and> n \<le> 57 then Some (n - 48)
      else if 97 \<le> n \<and> n \<le> 122 then Some (n - 87)
      else if 65 \<le> n \<and> n \<le> 90 then Some (n - 55)
      else None)"

definition radixDigit :: "nat \<Rightarrow> char \<Rightarrow> bool" where
  "radixDigit R c = (case digitValue c of Some d \<Rightarrow> d < R | None \<Rightarrow> False)"

definition digitOf :: "char \<Rightarrow> nat" where
  "digitOf c = (case digitValue c of Some d \<Rightarrow> d | None \<Rightarrow> 0)"

text \<open>
  \<^verbatim>\<open>parseInt(string)\<close> with no radix: skip leading white space, take a sign, take a
  \<^verbatim>\<open>0x\<close> or \<^verbatim>\<open>0X\<close> prefix (radix 16, otherwise 10), read the longest run of digits
  of the radix and ignore what follows; with no digit the result is \<^verbatim>\<open>NaN\<close>, otherwise
  the Number value of the integer read (as V8, the engine of the \<^verbatim>\<open>nodejs22.x\<close> runtime,
  computes it: correctly rounded).
\<close>

definition stripSign :: "string \<Rightarrow> bool \<times> string" where
  "stripSign s =
     (case s of
        [] \<Rightarrow> (False, [])
      | c # r \<Rightarrow>
          if c = CHR ''-'' then (True, r)
          else if c = CHR ''+'' then (False, r)
          else (False, s))"

definition stripPrefix :: "string \<Rightarrow> nat \<times> string" where
  "stripPrefix s =
     (if take 2 s = ''0x'' \<or> take 2 s = ''0X'' then (16, drop 2 s) else (10, s))"

definition parseInt :: "string \<Rightarrow> number" where
  "parseInt inputString =
     (case stripSign (skipWhiteSpace inputString) of
        (negative, s1) \<Rightarrow>
          (case stripPrefix s1 of
             (R, s2) \<Rightarrow>
               (let z = takeWhile (radixDigit R) s2
                in if z = [] then NaN
                   else toNumber ((if negative then - 1 else 1)
                          * int (foldl (\<lambda>acc c. acc * R + digitOf c) 0 z)))))"

text \<open>
  \<^verbatim>\<open>Array(len)\<close> throws \<^verbatim>\<open>RangeError: Invalid array length\<close> unless \<^verbatim>\<open>len\<close> is an
  integer from \<open>0\<close> to \<open>2^32 - 1\<close>; \<^verbatim>\<open>NaN\<close> and the infinities are not.
\<close>

fun arrayOfLength :: "number \<Rightarrow> error + nat" where
  "arrayOfLength (Integer n) = (if 0 \<le> n \<and> n < 4294967296 then Inr (nat n) else Inl RangeError)"
| "arrayOfLength _ = Inl RangeError"

section \<open>Base64\<close>

text \<open>\<^verbatim>\<open>Buffer.from(str).toString('base64')\<close>: base64 of the UTF-8 bytes of the string.\<close>

definition base64Alphabet :: string where
  "base64Alphabet = ''ABCDEFGHIJKLMNOPQRSTUVWXYZabcdefghijklmnopqrstuvwxyz0123456789+/''"

definition base64Char :: "nat \<Rightarrow> char" where
  "base64Char n = base64Alphabet ! (n mod 64)"

fun base64Bytes :: "nat list \<Rightarrow> string" where
  "base64Bytes [] = []"
| "base64Bytes [a] = [base64Char (a div 4), base64Char ((a mod 4) * 16), CHR ''='', CHR ''='']"
| "base64Bytes [a, b] =
     [base64Char (a div 4), base64Char ((a mod 4) * 16 + b div 16),
      base64Char ((b mod 16) * 4), CHR ''='']"
| "base64Bytes (a # b # c # rest) =
     [base64Char (a div 4), base64Char ((a mod 4) * 16 + b div 16),
      base64Char ((b mod 16) * 4 + c div 64), base64Char (c mod 64)] @ base64Bytes rest"

definition base64 :: "string \<Rightarrow> string" where
  "base64 s = base64Bytes (map of_char s)"

section \<open>The generated script: data\<close>

text \<open>
  The script embeds the function list as a constant. An element is
  \<^verbatim>\<open>{ name, config: { concurrency, clientContext, payload, alias } }\<close>, where the last
  three are a string or \<^verbatim>\<open>undefined\<close>. \<open>funcName\<close> is the \<^verbatim>\<open>name\<close> field and
  \<open>aliasName\<close> the \<^verbatim>\<open>alias\<close> field. \<^verbatim>\<open>process.env\<close> maps names to strings.
\<close>

record Config =
  concurrency :: int
  clientContext :: "string option"
  payload :: "string option"
  aliasName :: "string option"

record Func =
  funcName :: string
  config :: Config

type_synonym env = "string \<rightharpoonup> string"

text \<open>
  A value of type string-or-undefined under a truth test: \<^verbatim>\<open>undefined\<close> and the empty
  string are falsy. The result is the string when it is truthy.
\<close>

fun truthyString :: "string option \<Rightarrow> string option" where
  "truthyString None = None"
| "truthyString (Some s) = (if s = [] then None else Some s)"

record InvokeCommand =
  ClientContext :: "string option"
  FunctionName :: string
  InvocationType :: string
  LogType :: string
  Qualifier :: "string option"
  Payload :: "string option"

text \<open>What the script writes: \<^verbatim>\<open>console.log(str)\<close> and \<^verbatim>\<open>console.error(str, e)\<close>.\<close>

datatype event = ConsoleLog string | ConsoleError string error

text \<open>
  A settled promise: the tick at which it settles, and the rejection or the value. Tick
  \<open>0\<close> is the synchronous pass with the microtasks that follow it at once; a response of
  the Lambda client arrives at a later tick.
\<close>

type_synonym 'a promise = "nat \<times> (error + 'a)"

text \<open>
  The Lambda client with the service behind it: \<open>lambdaClient i k command\<close> is the promise
  that the \<open>k\<close>-th \<^verbatim>\<open>send\<close> for the \<open>i\<close>-th function of the list returns, its tick
  counted from the first tick after the synchronous pass.
\<close>

type_synonym client = "nat \<Rightarrow> nat \<Rightarrow> InvokeCommand \<Rightarrow> unit promise"

definition send :: "client \<Rightarrow> nat \<Rightarrow> nat \<Rightarrow> InvokeCommand \<Rightarrow> unit promise" where
  "send lambdaClient i k command = (case lambdaClient i k command of (t, r) \<Rightarrow> (Suc t, r))"

section \<open>The generated script: \<^verbatim>\<open>logVerbose\<close>, \<^verbatim>\<open>getConcurrency\<close>\<close>

text \<open>
  The body of \<^verbatim>\<open>logVerbose\<close> is chosen when the script is generated: \<^verbatim>\<open>console.log(str);\<close>
  when \<^verbatim>\<open>verbose\<close> is set, nothing otherwise. The functions of the script take the flag
  and return the lines they log.
\<close>

definition logVerbose :: "bool \<Rightarrow> string \<Rightarrow> event list" where
  "logVerbose verbose str = (if verbose then [ConsoleLog str] else [])"

text \<open>\<^verbatim>\<open>func.name.toUpperCase().replace(/-/g, '_')\<close>\<close>

definition replaceHyphens :: "string \<Rightarrow> string" where
  "replaceHyphens s = map (\<lambda>c. if c = CHR ''-'' then CHR ''_'' else c) s"

definition concurrencyVariable :: "Func \<Rightarrow> string" where
  "concurrencyVariable func = ''WARMUP_CONCURRENCY_'' @ replaceHyphens (toUpperCase (funcName func))"

text \<open>
  \<^verbatim>\<open>getConcurrency\<close>. An environment variable is a string and is parsed as it is. The
  configured concurrency is a number: \<^verbatim>\<open>parseInt\<close> converts its argument to a string first,
  so the last branch parses \<^verbatim>\<open>String(func.config.concurrency)\<close>.
\<close>

definition getConcurrency :: "bool \<Rightarrow> Func \<Rightarrow> env \<Rightarrow> number \<times> event list" where
  "getConcurrency verbose func envVars =
     (case truthyString (envVars (concurrencyVariable func)) of
        Some functionConcurrency \<Rightarrow>
          (let resolved = parseInt functionConcurrency in
           (resolved,
            logVerbose verbose (''Warming up function: '' @ funcName func
              @ '' with concurrency: '' @ numberToString resolved
              @ '' (from function-specific environment variable)'')))
      | None \<Rightarrow>
          (case truthyString (envVars ''WARMUP_CONCURRENCY'') of
             Some globalConcurrency \<Rightarrow>
               (let resolved = parseInt globalConcurrency in
                (resolved,
                 logVerbose verbose (''Warming up function: '' @ funcName func
                   @ '' with concurrency: '' @ numberToString resolved
                   @ '' (from global environment variable)'')))
           | None \<Rightarrow>
               (let resolved =
                      parseInt (numberToString (Integer (concurrency (config func)))) in
                (resolved,
                 logVerbose verbose (''Warming up function: '' @ funcName func
                   @ '' with concurrency: '' @ numberToString resolved)))))"

section \<open>The generated script: \<^verbatim>\<open>warmUp\<close>\<close>

text \<open>The \<^verbatim>\<open>InvokeCommand\<close> of lines 163 to 176.\<close>

definition invokeCommand :: "Func \<Rightarrow> env \<Rightarrow> InvokeCommand" where
  "invokeCommand func envVars =
     (let chosen = (case clientContext (config func) of
                      Some c \<Rightarrow> Some c
                    | None \<Rightarrow> payload (config func))
      in \<lparr>ClientContext =
            (case truthyString chosen of
               Some c \<Rightarrow> Some (base64 (''{'' @ [CHR 0x22] @ ''custom'' @ [CHR 0x22] @ '':'' @ c @ ''}''))
             | None \<Rightarrow> None),
          FunctionName = funcName func,
          InvocationType = ''RequestResponse'',
          LogType = ''None'',
          Qualifier =
            (case truthyString (aliasName (config func)) of
               Some a \<Rightarrow> Some a
             | None \<Rightarrow> envVars ''SERVERLESS_ALIAS''),
          Payload = payload (config func)\<rparr>)"

text \<open>
  \<^verbatim>\<open>Promise.all\<close>: rejected with the reason of the promise that rejects first (the
  earliest in the list among those of one tick), otherwise fulfilled with all the values
  once the last one is there; at tick \<open>0\<close> for the empty list.
\<close>

fun firstRejection :: "'a promise list \<Rightarrow> (nat \<times> error) option" where
  "firstRejection [] = None"
| "firstRejection ((t, Inr v) # ps) = firstRejection ps"
| "firstRejection ((t, Inl e) # ps) =
     (case firstRejection ps of
        None \<Rightarrow> Some (t, e)
      | Some (t', e') \<Rightarrow> if t' < t then Some (t', e') else Some (t, e))"

fun fulfilledValues :: "'a promise list \<Rightarrow> 'a list" where
  "fulfilledValues [] = []"
| "fulfilledValues ((t, Inr v) # ps) = v # fulfilledValues ps"
| "fulfilledValues ((t, Inl e) # ps) = fulfilledValues ps"

definition promiseAll :: "'a promise list \<Rightarrow> 'a list promise" where
  "promiseAll ps =
     (case firstRejection ps of
        Some (t, e) \<Rightarrow> (t, Inl e)
      | None \<Rightarrow> (foldr max (map fst ps) 0, Inr (fulfilledValues ps)))"

text \<open>
  One run of the \<^verbatim>\<open>async (func) => { ... }\<close> of lines 160 to 186, for the function at
  place \<open>i\<close>. Up to its \<^verbatim>\<open>await\<close> the body runs synchronously: it resolves the
  concurrency, builds the command and, inside \<^verbatim>\<open>try\<close>, calls \<^verbatim>\<open>Array(concurrency)\<close>
  and \<^verbatim>\<open>lambdaClient.send\<close> once per element. A \<^verbatim>\<open>RangeError\<close> of \<^verbatim>\<open>Array\<close> and a
  rejection of the awaited \<^verbatim>\<open>Promise.all\<close> both end in the \<^verbatim>\<open>catch\<close>.

  \<open>syncEvents\<close> is what the body writes before it suspends, \<open>issued\<close> the commands it
  sent, \<open>lateEvents\<close> what it writes when it resumes (with the tick), and \<open>settles\<close> the
  promise the body returns.
\<close>

record Batch =
  syncEvents :: "event list"
  issued :: "InvokeCommand list"
  lateEvents :: "(nat \<times> event) list"
  settles :: "bool promise"

definition warmFunction :: "bool \<Rightarrow> client \<Rightarrow> env \<Rightarrow> nat \<Rightarrow> Func \<Rightarrow> Batch" where
  "warmFunction verbose lambdaClient envVars i func =
     (case getConcurrency verbose func envVars of
        (resolved, lines) \<Rightarrow>
          (let command = invokeCommand func envVars in
           case arrayOfLength resolved of
             Inl e \<Rightarrow>
               \<lparr>syncEvents = lines @ [ConsoleError (''Warm Up Invoke Error: '' @ funcName func) e],
                issued = [],
                lateEvents = [],
                settles = (0, Inr False)\<rparr>
           | Inr n \<Rightarrow>
               (case promiseAll (map (\<lambda>k. send lambdaClient i k command) [0..<n]) of
                  (t, Inr _) \<Rightarrow>
                    \<lparr>syncEvents = lines,
                     issued = replicate n command,
                     lateEvents = map (Pair t)
                       (logVerbose verbose (''Warm Up Invoke Success: '' @ funcName func)),
                     settles = (t, Inr True)\<rparr>
                | (t, Inl e) \<Rightarrow>
                    \<lparr>syncEvents = lines,
                     issued = replicate n command,
                     lateEvents = [(t, ConsoleError (''Warm Up Invoke Error: '' @ funcName func) e)],
                     settles = (t, Inr False)\<rparr>)))"

text \<open>
  The entry point. \<open>console\<close> is everything written, in order: the start line, what the
  bodies write in the synchronous pass, what they write as their batches settle (by tick,
  and by place in the list within a tick), and the summary once the outer \<^verbatim>\<open>Promise.all\<close>
  is fulfilled. \<open>finished\<close> is how the promise of \<^verbatim>\<open>warmUp\<close> settles and \<open>invokes\<close> the
  array the summary counts.
\<close>

record Run =
  console :: "event list"
  batches :: "Batch list"
  invokes :: "bool list"
  finished :: completion

definition invokeErrors :: "bool list \<Rightarrow> nat" where
  "invokeErrors rs = length (filter (\<lambda>r. \<not> r) rs)"

definition warmUp :: "bool \<Rightarrow> client \<Rightarrow> env \<Rightarrow> Func list \<Rightarrow> Run" where
  "warmUp verbose lambdaClient envVars funcs =
     (let bs = map (\<lambda>(i, func). warmFunction verbose lambdaClient envVars i func)
                 (enumerate 0 funcs);
          start = logVerbose verbose ''Warm Up Start'' @ concat (map syncEvents bs)
                    @ map snd (sort_key fst (concat (map lateEvents bs)))
      in case promiseAll (map settles bs) of
           (t, Inr rs) \<Rightarrow>
             \<lparr>console = start @ logVerbose verbose (''Warm Up Finished with ''
                  @ numberToString (Integer (int (invokeErrors rs))) @ '' invoke errors''),
              batches = bs,
              invokes = rs,
              finished = Returned\<rparr>
         | (t, Inl e) \<Rightarrow>
             \<lparr>console = start, batches = bs, invokes = [], finished = Threw e\<rparr>)"

section \<open>RuntimeArtifactSynthesizer: the text of the script\<close>

text \<open>
  \<^verbatim>\<open>JSON.stringify(value, null, '  ')\<close> on a document. \<open>ind\<close> is the indentation the
  value stands at. A property whose value is \<^verbatim>\<open>undefined\<close> is left out, an array element
  that is \<^verbatim>\<open>undefined\<close> is written \<^verbatim>\<open>null\<close>, and \<^verbatim>\<open>undefined\<close> itself has no text.
\<close>

definition hexDigit :: "nat \<Rightarrow> char" where
  "hexDigit n = ''0123456789abcdef'' ! (n mod 16)"

definition escapeJSON :: "char \<Rightarrow> string" where
  "escapeJSON c =
     (let n = (of_char c :: nat) in
      if n = 34 then [CHR 0x5C, CHR 0x22]
      else if n = 92 then [CHR 0x5C, CHR 0x5C]
      else if n = 8 then [CHR 0x5C, CHR ''b'']
      else if n = 12 then [CHR 0x5C, CHR ''f'']
      else if n = 10 then [CHR 0x5C, CHR ''n'']
      else if n = 13 then [CHR 0x5C, CHR ''r'']
      else if n = 9 then [CHR 0x5C, CHR ''t'']
      else if n < 32 then [CHR 0x5C] @ ''u00'' @ [hexDigit (n div 16), hexDigit n]
      else [c])"

definition quoteJSON :: "string \<Rightarrow> string" where
  "quoteJSON s = [CHR 0x22] @ concat (map escapeJSON s) @ [CHR 0x22]"

fun stringify :: "string \<Rightarrow> jsval \<Rightarrow> string option" where
  "stringify ind Undefined = None"
| "stringify ind Null = Some ''null''"
| "stringify ind (Bool b) = Some (if b then ''true'' else ''false'')"
| "stringify ind (Num n) = Some (numberToString (Integer n))"
| "stringify ind (Str s) = Some (quoteJSON s)"
| "stringify ind (Arr xs) =
     Some (if xs = [] then ''[]''
           else ''['' @ [CHR 0x0A] @ ind @ ''  ''
                @ join_str ('','' @ [CHR 0x0A] @ ind @ ''  '')
                    (map (\<lambda>x. case stringify (ind @ ''  '') x of
                                 Some t \<Rightarrow> t
                               | None \<Rightarrow> ''null'') xs)
                @ [CHR 0x0A] @ ind @ '']'')"
| "stringify ind (Obj kvs) =
     (let members = concat (map (\<lambda>kv. case stringify (ind @ ''  '') (snd kv) of
                                          Some t \<Rightarrow> [quoteJSON (fst kv) @ '': '' @ t]
                                        | None \<Rightarrow> []) kvs)
      in Some (if members = [] then ''{}''
               else ''{'' @ [CHR 0x0A] @ ind @ ''  ''
                    @ join_str ('','' @ [CHR 0x0A] @ ind @ ''  '') members
                    @ [CHR 0x0A] @ ind @ ''}''))"

text \<open>The interpolation \<^verbatim>\<open>${JSON.stringify(functions, null, '  ')}\<close> of line 131.\<close>

definition embeddedFunctions :: "jsval \<Rightarrow> string" where
  "embeddedFunctions funcs = (case stringify [] funcs of Some t \<Rightarrow> t | None \<Rightarrow> ''undefined'')"

text \<open>The interpolation of lines 124 to 129.\<close>

definition tracingFragment :: "bool \<Rightarrow> string" where
  "tracingFragment tracing =
     (if tracing
      then ''import * as AWSXRay from 'aws-xray-sdk';'' @ [CHR 0x0A]
           @ ''const lambdaClient = AWSXRay.captureAWSv3Client(uninstrumentedLambdaClient);''
      else ''const lambdaClient = uninstrumentedLambdaClient;'')"

text \<open>
  The template literal of lines 112 to 189, line by line (the literal starts with a line
  break). \<open>funcs\<close> is the \<^verbatim>\<open>functions\<close> argument.
\<close>

definition warmUpFunction :: "jsval \<Rightarrow> bool \<Rightarrow> bool \<Rightarrow> string \<Rightarrow> string" where
  "warmUpFunction funcs tracing verbose region =
     join_str [CHR 0x0A] ([
        '''',
        ''/** Generated by Serverless WarmUp Plugin **/'',
        '''',
        ''import { LambdaClient, InvokeCommand } from '@aws-sdk/client-lambda';'',
        ''import { NodeHttpHandler } from '@smithy/node-http-handler';'',
        '''',
        ''const uninstrumentedLambdaClient = new LambdaClient({'',
        ''  apiVersion: '2015-03-31','',
        ''  region: '' @ [CHR 0x27] @ region @ [CHR 0x27] @ '','',
        ''  requestHandler: new NodeHttpHandler({ connectionTimeout: 1000 }),'',
        ''});'',
        '''',
        tracingFragment tracing,
        '''',
        ''const functions = '' @ embeddedFunctions funcs @ '';'',
        '''',
        ''function logVerbose(str) {'',
        ''  '' @ (if verbose then ''console.log(str);'' else ''''),
        ''}'',
        '''',
        ''function getConcurrency(func, envVars) {'',
        ''  const functionConcurrency = envVars['' @ [CHR 0x60] @ ''WARMUP_CONCURRENCY_${func.name.toUpperCase().replace(/-/g, '_')}'' @ [CHR 0x60] @ ''];'',
        '''',
        ''  if (functionConcurrency) {'',
        ''    const concurrency = parseInt(functionConcurrency);'',
        ''    logVerbose('' @ [CHR 0x60] @ ''Warming up function: ${func.name} with concurrency: ${concurrency} (from function-specific environment variable)'' @ [CHR 0x60] @ '');'',
        ''    return concurrency;'',
        ''  }'',
        '''',
        ''  if (envVars.WARMUP_CONCURRENCY) {'',
        ''    const concurrency = parseInt(envVars.WARMUP_CONCURRENCY);'',
        ''    logVerbose('' @ [CHR 0x60] @ ''Warming up function: ${func.name} with concurrency: ${concurrency} (from global environment variable)'' @ [CHR 0x60] @ '');'',
        ''    return concurrency;'',
        ''  }'',
        '''',
        ''  const concurrency = parseInt(func.config.concurrency);'',
        ''  logVerbose('' @ [CHR 0x60] @ ''Warming up function: ${func.name} with concurrency: ${concurrency}'' @ [CHR 0x60] @ '');'',
        ''  return concurrency;'',
        ''}'',
        '''',
        ''export const warmUp = async (event, context) => {'',
        ''  logVerbose('Warm Up Start');'',
        '''',
        ''  const invokes = await Promise.all(functions.map(async (func) => {'',
        ''    const concurrency = getConcurrency(func, process.env);'',
        '''',
        ''    const clientContext = func.config.clientContext !== undefined'',
        ''      ? func.config.clientContext'',
        ''      : func.config.payload;'',
        '''',
        ''    const invokeCommand = new InvokeCommand({'',
        ''      ClientContext: clientContext'',
        ''        ? Buffer.from('' @ [CHR 0x60] @ ''{'' @ [CHR 0x22] @ ''custom'' @ [CHR 0x22] @ '':${clientContext}}'' @ [CHR 0x60] @ '').toString('base64')'',
        ''        : undefined,'',
        ''      FunctionName: func.name,'',
        ''      InvocationType: 'RequestResponse','',
        ''      LogType: 'None','',
        ''      Qualifier: func.config.alias || process.env.SERVERLESS_ALIAS,'',
        ''      Payload: func.config.payload'',
        ''    });'',
        '''',
        ''    try {'',
        ''      await Promise.all(Array(concurrency).fill(0).map(async () => await lambdaClient.send(invokeCommand)));'',
        ''      logVerbose('' @ [CHR 0x60] @ ''Warm Up Invoke Success: ${func.name}'' @ [CHR 0x60] @ '');'',
        ''      return true;'',
        ''    } catch (e) {'',
        ''      console.error('' @ [CHR 0x60] @ ''Warm Up Invoke Error: ${func.name}'' @ [CHR 0x60] @ '', e);'',
        ''      return false;'',
        ''    }'',
        ''  }));'',
        '''',
        ''  logVerbose('' @ [CHR 0x60] @ ''Warm Up Finished with ${invokes.filter(r => !r).length} invoke errors'' @ [CHR 0x60] @ '');'',
        ''}''])"

section \<open>RuntimeArtifactSynthesizer: \<^verbatim>\<open>createWarmUpFunctionArtifact\<close>\<close>

text \<open>
  The function awaits, one after the other, \<^verbatim>\<open>fs.mkdir\<close> (recursive), \<^verbatim>\<open>fs.writeFile\<close>
  and, with tracing, two \<^verbatim>\<open>exec\<close> calls in the handler folder. The world decides, from
  what was done so far, whether a step fails; a failure rejects the promise and the
  later steps do not run. \<^verbatim>\<open>path.join\<close> is a parameter.
\<close>

datatype action = Mkdir string | WriteFile string string | Exec string string

type_synonym world = "action list \<Rightarrow> action \<Rightarrow> error option"

fun perform :: "world \<Rightarrow> action list \<Rightarrow> action list \<Rightarrow> action list \<times> completion" where
  "perform w past [] = (past, Returned)"
| "perform w past (a # todo) =
     (case w past a of
        Some e \<Rightarrow> (past, Threw e)
      | None \<Rightarrow> perform w (past @ [a]) todo)"

definition artifactSteps ::
  "(string \<Rightarrow> string \<Rightarrow> string) \<Rightarrow> jsval \<Rightarrow> bool \<Rightarrow> bool \<Rightarrow> string \<Rightarrow> string \<Rightarrow> action list" where
  "artifactSteps pathJoin funcs tracing verbose region handlerFolder =
     [Mkdir handlerFolder,
      WriteFile (pathJoin handlerFolder ''index.mjs'') (warmUpFunction funcs tracing verbose region)]
     @ (if tracing
        then [Exec ''npm init -y'' handlerFolder,
              Exec ''npm install --save aws-xray-sdk-core'' handlerFolder]
        else [])"

definition createWarmUpFunctionArtifact ::
  "(string \<Rightarrow> string \<Rightarrow> string) \<Rightarrow> world \<Rightarrow> jsval \<Rightarrow> bool \<Rightarrow> bool \<Rightarrow> string \<Rightarrow> string
     \<Rightarrow> action list \<times> completion" where
  "createWarmUpFunctionArtifact pathJoin w funcs tracing verbose region handlerFolder =
     perform w [] (artifactSteps pathJoin funcs tracing verbose region handlerFolder)"

section \<open>What the properties below observe\<close>

text \<open>The \<^verbatim>\<open>Resources\<close> mapping of a service; empty when there is none.\<close>

definition resourceDocs :: "Service \<Rightarrow> (string \<times> jsval) list" where
  "resourceDocs svc =
     (case resources svc of
        Object section \<Rightarrow> (case Resources section of Object docs \<Rightarrow> docs | _ \<Rightarrow> [])
      | _ \<Rightarrow> [])"

text \<open>A service whose \<^verbatim>\<open>resources\<close>, or whose \<^verbatim>\<open>resources.Resources\<close>, is \<^verbatim>\<open>null\<close>.\<close>

definition nullContainer :: "Service \<Rightarrow> bool" where
  "nullContainer svc =
     (case resources svc of
        IsNull \<Rightarrow> True
      | Object section \<Rightarrow> Resources section = IsNull
      | _ \<Rightarrow> False)"

text \<open>
  The statements of a role document's inline policies that grant
  \<^verbatim>\<open>lambda:InvokeFunction\<close>.
\<close>

definition invokeStatements :: "jsval \<Rightarrow> jsval list" where
  "invokeStatements doc =
     filter (\<lambda>st. prop_of ''Action'' st = Arr [Str ''lambda:InvokeFunction''])
       (concat (map (\<lambda>p. elements (prop_of ''Statement'' (prop_of ''PolicyDocument'' p)))
          (elements (prop_of ''Policies'' (prop_of ''Properties'' doc)))))"

text \<open>The override that \<^verbatim>\<open>getConcurrency\<close> resolves, when there is one.\<close>

definition resolvedOverride :: "Func \<Rightarrow> env \<Rightarrow> string option" where
  "resolvedOverride func envVars =
     (case truthyString (envVars (concurrencyVariable func)) of
        Some v \<Rightarrow> Some v
      | None \<Rightarrow> truthyString (envVars ''WARMUP_CONCURRENCY''))"

text \<open>
  A string with no numeral for \<^verbatim>\<open>parseInt\<close> to read: after leading white space and an
  optional sign it does not start with a decimal digit, or it starts with \<^verbatim>\<open>0x\<close> or
  \<^verbatim>\<open>0X\<close> and no hexadecimal digit follows that prefix.
\<close>

definition noLeadingNumeral :: "string \<Rightarrow> bool" where
  "noLeadingNumeral s =
     (case stripPrefix (snd (stripSign (skipWhiteSpace s))) of
        (R, s2) \<Rightarrow> (case s2 of [] \<Rightarrow> True | c # r \<Rightarrow> \<not> radixDigit R c))"

text \<open>A decimal numeral: an optional sign and one or more decimal digits, nothing else.\<close>

definition numericString :: "string \<Rightarrow> bool" where
  "numericString s =
     (case s of
        [] \<Rightarrow> False
      | c # r \<Rightarrow>
          (if c = CHR ''+'' \<or> c = CHR ''-''
           then r \<noteq> [] \<and> list_all (radixDigit 10) r
           else list_all (radixDigit 10) s))"

text \<open>
  The batch of the function at place \<open>i\<close> fails: \<^verbatim>\<open>Array(concurrency)\<close> throws, or one of
  the \<^verbatim>\<open>send\<close> calls is rejected.
\<close>

definition batchFails :: "client \<Rightarrow> env \<Rightarrow> nat \<Rightarrow> Func \<Rightarrow> bool" where
  "batchFails lambdaClient envVars i func =
     (case arrayOfLength (fst (getConcurrency False func envVars)) of
        Inl e \<Rightarrow> True
      | Inr n \<Rightarrow> list_ex (\<lambda>k. isl (snd (lambdaClient i k (invokeCommand func envVars)))) [0..<n])"

fun isError :: "event \<Rightarrow> bool" where
  "isError (ConsoleError s e) = True"
| "isError (ConsoleLog s) = False"

text \<open>
  The module specifiers of the \<^verbatim>\<open>import\<close> lines of a text (what stands between the
  first pair of single quotes of the line), and the packages that the
  \<^verbatim>\<open>npm install --save\<close> steps name.
\<close>

definition quoted :: "string \<Rightarrow> string" where
  "quoted line = takeWhile (\<lambda>c. c \<noteq> CHR 0x27) (drop 1 (dropWhile (\<lambda>c. c \<noteq> CHR 0x27) line))"

definition importedModules :: "string \<Rightarrow> string list" where
  "importedModules script =
     map quoted (filter (\<lambda>line. take 7 line = ''import '') (split_str (CHR 0x0A) script))"

fun installedPackages :: "action list \<Rightarrow> string list" where
  "installedPackages [] = []"
| "installedPackages (Exec command cwd # steps) =
     (if take 19 command = ''npm install --save '' then [drop 19 command] else [])
     @ installedPackages steps"
| "installedPackages (_ # steps) = installedPackages steps"

section \<open>The specification's wording, for comparison\<close>


text \<open>
  The invocation request as the specification words it: the client context is
  \<^verbatim>\<open>config.clientContext\<close>, or \<^verbatim>\<open>config.payload\<close> when that is undefined, encoded
  whenever there is one; the qualifier is \<^verbatim>\<open>config.alias\<close>, or \<^verbatim>\<open>SERVERLESS_ALIAS\<close>
  when that is undefined.
\<close>

definition statedCommand :: "Func \<Rightarrow> env \<Rightarrow> InvokeCommand" where
  "statedCommand func envVars =
     \<lparr>ClientContext =
        (case (case clientContext (config func) of
                 Some c \<Rightarrow> Some c
               | None \<Rightarrow> payload (config func)) of
           Some v \<Rightarrow> Some (base64 (''{'' @ [CHR 0x22] @ ''custom'' @ [CHR 0x22] @ '':'' @ v @ ''}''))
         | None \<Rightarrow> None),
      FunctionName = funcName func,
      InvocationType = ''RequestResponse'',
      LogType = ''None'',
      Qualifier =
        (case aliasName (config func) of
           Some a \<Rightarrow> Some a
         | None \<Rightarrow> envVars ''SERVERLESS_ALIAS''),
      Payload = payload (config func)\<rparr>"

section \<open>Inputs for the examples\<close>

definition capitalizeFirst :: "string \<Rightarrow> string" where
  "capitalizeFirst s = (case s of [] \<Rightarrow> [] | c # cs \<Rightarrow> toUpperChar c # cs)"

definition shop :: Service where
  "shop = \<lparr>service = ''shop'', resources = NotSet, serviceFunctions = []\<rparr>"

definition nightly :: WarmerConfig where
  "nightly =
     \<lparr>configName = ''shop-dev-warmer-nightly'',
      role = Undefined,
      roleName = Undefined,
      warmerFunctions = [\<lparr>fnName = ''shop-dev-cart''\<rparr>, \<lparr>fnName = ''shop-dev-pay''\<rparr>],
      events = Arr [Obj [(''schedule'', Str ''rate(5 minutes)'')]],
      memorySize = Num 128,
      timeout = Num 10,
      environment = [],
      tracingOption = Undefined,
      logRetentionInDays = Undefined,
      tags = Undefined,
      vpc = Undefined,
      architecture = Undefined,
      package = Undefined,
      pathHandler = ''.warmup/nightly/index.warmUp''\<rparr>"

definition target :: "string \<Rightarrow> int \<Rightarrow> Func" where
  "target n c =
     \<lparr>funcName = n,
      config = \<lparr>concurrency = c, clientContext = None, payload = None, aliasName = None\<rparr>\<rparr>"

text \<open>
  A function with a payload, no client context and an alias, and one whose client context
  and alias are empty strings.
\<close>

definition withPayload :: Func where
  "withPayload =
     \<lparr>funcName = ''foo'',
      config = \<lparr>concurrency = 1, clientContext = None, payload = Some ''{}'',
                aliasName = Some ''live''\<rparr>\<rparr>"

definition emptyContext :: Func where
  "emptyContext =
     \<lparr>funcName = ''foo'',
      config = \<lparr>concurrency = 1, clientContext = Some [], payload = Some ''{}'',
                aliasName = Some []\<rparr>\<rparr>"

text \<open>A client whose every call succeeds, and one that rejects the calls for place \<open>1\<close>.\<close>

definition healthy :: client where
  "healthy i k command = (k, Inr ())"

definition failingSecond :: client where
  "failingSecond i k command = (k, if i = 1 then Inl (InvokeError ''boom'') else Inr ())"

text \<open>The functions argument \<^verbatim>\<open>[{ name: 'foo', config: { concurrency: 5 } }]\<close>.\<close>

definition fooList :: jsval where
  "fooList = Arr [Obj [(''name'', Str ''foo''), (''config'', Obj [(''concurrency'', Num 5)])]]"

text \<open>A world in which every \<^verbatim>\<open>exec\<close> fails and everything else succeeds.\<close>

fun offline :: world where
  "offline past (Exec command cwd) = Some (SystemError ''npm: not found'')"
| "offline past _ = None"

text \<open>Joining two path segments with a slash, for the examples.\<close>

definition slashJoin :: "string \<Rightarrow> string \<Rightarrow> string" where
  "slashJoin a b = a @ ''/'' @ b"

text \<open>A world in which every step succeeds.\<close>

definition calm :: world where
  "calm past a = None"

section \<open>Properties of the role and of the function definition\<close>

lemma roleDocument_resources:
  "roleDocument (svc\<lparr>resources := r\<rparr>) stage warmerName warmerConfig =
   roleDocument svc stage warmerName warmerConfig"
  by (simp add: roleDocument_def)

lemma role_run_config:
  assumes "addWarmUpFunctionRoleToResources capitalize svc stage warmerName warmerConfig
             = (outcome, svc', warmerConfig')"
  shows "warmerConfig' = warmerConfig\<lparr>role := Str (roleKey capitalize warmerName)\<rparr>"
    and "(outcome = Returned) = (\<not> nullContainer svc)"
  using assms
  by (auto simp: addWarmUpFunctionRoleToResources_def Let_def nullContainer_def
           split: slot.splits if_splits)

lemma role_run_docs:
  assumes "addWarmUpFunctionRoleToResources capitalize svc stage warmerName warmerConfig
             = (Returned, svc', warmerConfig')"
  shows "resourceDocs svc' = AList.update (roleKey capitalize warmerName)
           (roleDocument svc stage warmerName warmerConfig') (resourceDocs svc)"
  using assms
  by (auto simp: addWarmUpFunctionRoleToResources_def Let_def resourceDocs_def
                 roleDocument_resources
           split: slot.splits if_splits)

lemma entry_role:
  assumes "role warmerConfig = Str (roleKey capitalize warmerName)"
  shows "prop_of ''role'' (functionEntry sep warmerName warmerConfig)
           = Str (roleKey capitalize warmerName)"
  using assms by (simp add: functionEntry_def spread_if_def roleKey_def)

lemma service_entry:
  "map_of (serviceFunctions (addWarmUpFunctionToService capitalize sep svc warmerName warmerConfig))
     (functionKey capitalize warmerName) = Some (functionEntry sep warmerName warmerConfig)"
  by (simp add: addWarmUpFunctionToService_def update_conv')

lemma invoke_statement:
  "invokeStatements (roleDocument svc stage warmerName warmerConfig) =
     [Obj [(''Effect'', Str ''Allow''),
           (''Action'', Arr [Str ''lambda:InvokeFunction'']),
           (''Resource'', Arr (map (\<lambda>fn. Obj [(''Fn::Sub'', Str (functionArn @ fnName fn @ ''*''))])
                                  (warmerFunctions warmerConfig)))]]"
  by (simp add: invokeStatements_def roleDocument_def)

text \<open>
  C1. For every warmer name, once \<^verbatim>\<open>addWarmUpFunctionRoleToResources\<close> has run,
  \<^verbatim>\<open>warmerConfig.role\<close> is the string \<^verbatim>\<open>WarmUpPlugin\<close> + \<^verbatim>\<open>capitalize(warmerName)\<close> +
  \<^verbatim>\<open>Role\<close>. The call returns unless \<^verbatim>\<open>service.resources\<close> or its \<^verbatim>\<open>Resources\<close> is
  \<^verbatim>\<open>null\<close>; when it returns, the role document stands in \<^verbatim>\<open>service.resources.Resources\<close>
  under that key and no other key has changed. The entry that
  \<^verbatim>\<open>addWarmUpFunctionToService\<close> then stores under \<^verbatim>\<open>warmUpPlugin\<close> +
  \<^verbatim>\<open>capitalize(warmerName)\<close> has the same string as its \<^verbatim>\<open>role\<close>.
\<close>

theorem role_identifier_handoff:
  assumes "addWarmUpFunctionRoleToResources capitalize svc stage warmerName warmerConfig
             = (outcome, svc', warmerConfig')"
  shows "role warmerConfig' = Str (''WarmUpPlugin'' @ capitalize warmerName @ ''Role'')
       \<and> (outcome = Returned) = (\<not> nullContainer svc)
       \<and> (outcome = Returned \<longrightarrow>
            map_of (resourceDocs svc') (''WarmUpPlugin'' @ capitalize warmerName @ ''Role'')
              = Some (roleDocument svc stage warmerName warmerConfig')
            \<and> (\<forall>k. k \<noteq> ''WarmUpPlugin'' @ capitalize warmerName @ ''Role''
                  \<longrightarrow> map_of (resourceDocs svc') k = map_of (resourceDocs svc) k))
       \<and> (\<exists>entry.
            map_of (serviceFunctions
                      (addWarmUpFunctionToService capitalize sep svc' warmerName warmerConfig'))
              (''warmUpPlugin'' @ capitalize warmerName) = Some entry
            \<and> prop_of ''role'' entry = Str (''WarmUpPlugin'' @ capitalize warmerName @ ''Role''))"
proof -
  have cfg: "warmerConfig' = warmerConfig\<lparr>role := Str (roleKey capitalize warmerName)\<rparr>"
    and ret: "(outcome = Returned) = (\<not> nullContainer svc)"
    using role_run_config [OF assms] by simp_all
  have docs: "resourceDocs svc' = AList.update (roleKey capitalize warmerName)
           (roleDocument svc stage warmerName warmerConfig') (resourceDocs svc)"
    if "outcome = Returned"
    using role_run_docs assms that by simp
  have entry: "prop_of ''role'' (functionEntry sep warmerName warmerConfig')
                 = Str (roleKey capitalize warmerName)"
    by (rule entry_role) (simp add: cfg)
  show ?thesis
    using cfg ret docs entry service_entry [of capitalize sep svc' warmerName warmerConfig']
    by (simp add: roleKey_def functionKey_def update_conv')
qed

theorem role_identifier_handoff_witness:
  "fst (addWarmUpFunctionRoleToResources capitalizeFirst shop ''dev'' ''nightly'' nightly) = Returned
   \<and> role (snd (snd (addWarmUpFunctionRoleToResources capitalizeFirst shop ''dev'' ''nightly'' nightly)))
       = Str ''WarmUpPluginNightlyRole''
   \<and> map_of (resourceDocs (fst (snd (addWarmUpFunctionRoleToResources capitalizeFirst shop
         ''dev'' ''nightly'' nightly)))) ''WarmUpPluginNightlyRole''
       = Some (roleDocument shop ''dev'' ''nightly''
                 (snd (snd (addWarmUpFunctionRoleToResources capitalizeFirst shop ''dev'' ''nightly'' nightly))))
   \<and> (\<exists>entry.
        map_of (serviceFunctions (addWarmUpFunctionToService capitalizeFirst (CHR ''/'')
           (fst (snd (addWarmUpFunctionRoleToResources capitalizeFirst shop ''dev'' ''nightly'' nightly)))
           ''nightly''
           (snd (snd (addWarmUpFunctionRoleToResources capitalizeFirst shop ''dev'' ''nightly'' nightly)))))
          ''warmUpPluginNightly'' = Some entry
        \<and> prop_of ''role'' entry = Str ''WarmUpPluginNightlyRole'')"
proof -
  obtain outcome svc' warmerConfig' where
    run: "addWarmUpFunctionRoleToResources capitalizeFirst shop ''dev'' ''nightly'' nightly
            = (outcome, svc', warmerConfig')"
    by (cases "addWarmUpFunctionRoleToResources capitalizeFirst shop ''dev'' ''nightly'' nightly")
  have cap: "capitalizeFirst ''nightly'' = ''Nightly''"
    by code_simp
  have ok: "\<not> nullContainer shop"
    by (simp add: nullContainer_def shop_def)
  show ?thesis
    using role_identifier_handoff [OF run, of "CHR ''/''"] ok
    by (simp add: run cap)
qed

text \<open>
  C2. For every list \<open>F\<close> of functions in the warmer configuration (empty or not), the role
  document that \<^verbatim>\<open>addWarmUpFunctionRoleToResources\<close> stores has exactly one statement
  granting \<^verbatim>\<open>lambda:InvokeFunction\<close>; its \<^verbatim>\<open>Resource\<close> list has \<open>|F|\<close> entries, and the
  \<open>i\<close>-th is the \<^verbatim>\<open>Fn::Sub\<close> pattern that ends in \<^verbatim>\<open>function:\<close> + the \<open>i\<close>-th name +
  \<^verbatim>\<open>*\<close>.
\<close>

theorem invoke_resources_follow_functions:
  assumes "addWarmUpFunctionRoleToResources capitalize svc stage warmerName warmerConfig
             = (Returned, svc', warmerConfig')"
  shows "\<exists>doc statement entries.
           map_of (resourceDocs svc') (roleKey capitalize warmerName) = Some doc
         \<and> invokeStatements doc = [statement]
         \<and> prop_of ''Resource'' statement = Arr entries
         \<and> length entries = length (warmerFunctions warmerConfig)
         \<and> (\<forall>i < length (warmerFunctions warmerConfig).
              entries ! i = Obj [(''Fn::Sub'',
                Str (''arn:${AWS::Partition}:lambda:${AWS::Region}:${AWS::AccountId}:function:''
                     @ fnName (warmerFunctions warmerConfig ! i) @ ''*''))])"
proof -
  have cfg: "warmerConfig' = warmerConfig\<lparr>role := Str (roleKey capitalize warmerName)\<rparr>"
    using role_run_config(1) [OF assms] .
  have "map_of (resourceDocs svc') (roleKey capitalize warmerName)
          = Some (roleDocument svc stage warmerName warmerConfig')"
    using role_run_docs [OF assms] by (simp add: update_conv')
  moreover have "invokeStatements (roleDocument svc stage warmerName warmerConfig') =
     [Obj [(''Effect'', Str ''Allow''),
           (''Action'', Arr [Str ''lambda:InvokeFunction'']),
           (''Resource'', Arr (map (\<lambda>fn. Obj [(''Fn::Sub'', Str (functionArn @ fnName fn @ ''*''))])
                                  (warmerFunctions warmerConfig)))]]"
    using invoke_statement [of svc stage warmerName warmerConfig'] by (simp add: cfg)
  ultimately show ?thesis
    by (simp add: functionArn_def)
qed

theorem invoke_resources_follow_functions_witness:
  "\<exists>doc statement.
      map_of (resourceDocs (fst (snd (addWarmUpFunctionRoleToResources capitalizeFirst shop
         ''dev'' ''nightly'' nightly)))) ''WarmUpPluginNightlyRole'' = Some doc
    \<and> invokeStatements doc = [statement]
    \<and> prop_of ''Resource'' statement = Arr [
         Obj [(''Fn::Sub'',
           Str ''arn:${AWS::Partition}:lambda:${AWS::Region}:${AWS::AccountId}:function:shop-dev-cart*'')],
         Obj [(''Fn::Sub'',
           Str ''arn:${AWS::Partition}:lambda:${AWS::Region}:${AWS::AccountId}:function:shop-dev-pay*'')]]"
proof -
  obtain svc' warmerConfig' where
    run: "addWarmUpFunctionRoleToResources capitalizeFirst shop ''dev'' ''nightly'' nightly
            = (Returned, svc', warmerConfig')"
    by (simp add: addWarmUpFunctionRoleToResources_def shop_def Let_def)
  have cap: "capitalizeFirst ''nightly'' = ''Nightly''"
    by code_simp
  have fs: "warmerFunctions nightly = [\<lparr>fnName = ''shop-dev-cart''\<rparr>, \<lparr>fnName = ''shop-dev-pay''\<rparr>]"
    by (simp add: nightly_def)
  from invoke_resources_follow_functions [OF run]
  obtain doc statement entries where
    d: "map_of (resourceDocs svc') (roleKey capitalizeFirst ''nightly'') = Some doc"
    and s: "invokeStatements doc = [statement]"
    and r: "prop_of ''Resource'' statement = Arr entries"
    and l: "length entries = length (warmerFunctions nightly)"
    and e: "\<forall>i < length (warmerFunctions nightly).
              entries ! i = Obj [(''Fn::Sub'',
                Str (''arn:${AWS::Partition}:lambda:${AWS::Region}:${AWS::AccountId}:function:''
                     @ fnName (warmerFunctions nightly ! i) @ ''*''))]"
    by blast
  have e0: "entries ! 0 = Obj [(''Fn::Sub'',
      Str ''arn:${AWS::Partition}:lambda:${AWS::Region}:${AWS::AccountId}:function:shop-dev-cart*'')]"
    using e [rule_format, of 0] by (simp add: fs)
  have e1: "entries ! 1 = Obj [(''Fn::Sub'',
      Str ''arn:${AWS::Partition}:lambda:${AWS::Region}:${AWS::AccountId}:function:shop-dev-pay*'')]"
    using e [rule_format, of 1] by (simp add: fs)
  have "entries = [entries ! 0, entries ! 1]"
    using l by (cases entries; cases "tl entries") (auto simp: fs)
  with e0 e1 have "entries = [
         Obj [(''Fn::Sub'',
           Str ''arn:${AWS::Partition}:lambda:${AWS::Region}:${AWS::AccountId}:function:shop-dev-cart*'')],
         Obj [(''Fn::Sub'',
           Str ''arn:${AWS::Partition}:lambda:${AWS::Region}:${AWS::AccountId}:function:shop-dev-pay*'')]]"
    by simp
  with d s r show ?thesis
    by (auto simp: run roleKey_def cap)
qed

section \<open>Properties of \<^verbatim>\<open>parseInt\<close>\<close>

lemma bitLength_zero: "bitLength 0 = 0"
  by (simp add: bitLength.simps [of 0])

lemma bitLength_bound: "m < 2 ^ k \<Longrightarrow> bitLength m \<le> k"
proof (induction k arbitrary: m)
  case 0
  then show ?case by (simp add: bitLength_zero)
next
  case (Suc k)
  show ?case
  proof (cases "m = 0")
    case True
    then show ?thesis by (simp add: bitLength_zero)
  next
    case False
    have "m div 2 < 2 ^ k"
      using Suc.prems by simp
    then have "bitLength (m div 2) \<le> k"
      by (rule Suc.IH)
    then show ?thesis
      using False by (simp add: bitLength.simps [of m])
  qed
qed

lemma toNumber_exact:
  assumes "\<bar>i\<bar> < 9007199254740992"
  shows "toNumber i = Integer i"
proof -
  have "nat \<bar>i\<bar> < 2 ^ 53"
    using assms by simp
  then have b: "bitLength (nat \<bar>i\<bar>) \<le> 53"
    by (rule bitLength_bound)
  then have "roundToDouble (nat \<bar>i\<bar>) = nat \<bar>i\<bar>"
    by (simp add: roundToDouble_def)
  then show ?thesis
    using b by (auto simp: toNumber_def Let_def)
qed

lemma toNumber_not_NaN: "toNumber i \<noteq> NaN"
  by (simp add: toNumber_def Let_def)

lemma digitValue_digit: "d < 10 \<Longrightarrow> digitValue (char_of (48 + d)) = Some (d::nat)"
  by (simp add: digitValue_def)

lemma radixDigit_digit: "(d::nat) < 10 \<Longrightarrow> radixDigit 10 (char_of (48 + d))"
  by (simp add: radixDigit_def digitValue_digit)

lemma digitOf_digit: "(d::nat) < 10 \<Longrightarrow> digitOf (char_of (48 + d)) = d"
  by (simp add: digitOf_def digitValue_digit)

lemma radixDigit_plain:
  assumes "radixDigit 10 c"
  shows "c \<noteq> CHR ''+''" and "c \<noteq> CHR ''-''" and "c \<noteq> CHR ''x''" and "c \<noteq> CHR ''X''"
  using assms
  by (auto simp: radixDigit_def digitValue_def Let_def split: if_splits)

lemma whiteSpaceLength_ascii:
  assumes "\<not> asciiWhiteSpace a" and "a < 128"
  shows "whiteSpaceLength (a # bs) = 0"
proof (cases bs)
  case Nil
  then show ?thesis using assms by simp
next
  case (Cons b cs)
  then show ?thesis
    using assms by (cases cs) (auto simp: wideWhiteSpace_def)
qed

lemma skipWhiteSpace_ascii:
  assumes "\<not> asciiWhiteSpace (of_char c)" and "(of_char c :: nat) < 128"
  shows "skipWhiteSpace (c # r) = c # r"
  using whiteSpaceLength_ascii [OF assms, of "map of_char (take 2 r)"]
  by (simp add: skipWhiteSpace.simps [of "c # r"])

lemma skipWhiteSpace_digit: "radixDigit R c \<Longrightarrow> skipWhiteSpace (c # r) = c # r"
  by (rule skipWhiteSpace_ascii)
     (auto simp: radixDigit_def digitValue_def asciiWhiteSpace_def Let_def split: if_splits)

lemma skipWhiteSpace_minus: "skipWhiteSpace (CHR ''-'' # r) = CHR ''-'' # r"
  by (rule skipWhiteSpace_ascii) (simp_all add: asciiWhiteSpace_def)

lemma decimal_digits: "c \<in> set (decimal n) \<Longrightarrow> radixDigit 10 c"
proof (induction n arbitrary: c rule: decimal.induct)
  case (1 n)
  show ?case
  proof (cases "n < 10")
    case True
    with "1.prems" show ?thesis
      by (simp add: decimal.simps [of n] radixDigit_digit)
  next
    case False
    with "1.prems" have "c \<in> set (decimal (n div 10)) \<or> c = char_of (48 + n mod 10)"
      by (auto simp: decimal.simps [of n])
    then show ?thesis
      using "1.IH" [OF False] by (auto simp: radixDigit_digit)
  qed
qed

lemma decimal_not_empty: "decimal n \<noteq> []"
  by (simp add: decimal.simps [of n])

lemma decimal_value: "foldl (\<lambda>acc c. acc * 10 + digitOf c) 0 (decimal n) = n"
proof (induction n rule: decimal.induct)
  case (1 n)
  show ?case
  proof (cases "n < 10")
    case True
    then show ?thesis by (simp add: decimal.simps [of n] digitOf_digit)
  next
    case False
    then show ?thesis
      using "1.IH" by (simp add: decimal.simps [of n] digitOf_digit)
  qed
qed

lemma stripPrefix_decimal:
  assumes "s = [] \<or> \<not> radixDigit 10 (hd s) \<or> (\<forall>c \<in> set s. radixDigit 10 c)"
  shows "stripPrefix s = (10, s)"
proof -
  have zero: "radixDigit 10 (CHR ''0'')"
    by (simp add: radixDigit_def digitValue_def)
  have "take 2 s \<noteq> ''0x'' \<and> take 2 s \<noteq> ''0X''"
  proof (cases s)
    case Nil
    then show ?thesis by simp
  next
    case (Cons c r)
    then show ?thesis
      using assms zero radixDigit_plain(3,4) by (cases r) auto
  qed
  then show ?thesis by (simp add: stripPrefix_def)
qed

lemma parseInt_digits:
  assumes "s \<noteq> []" and "\<forall>c \<in> set s. radixDigit 10 c"
  shows "parseInt s = toNumber (int (foldl (\<lambda>acc c. acc * 10 + digitOf c) 0 s))"
    and "parseInt (CHR ''-'' # s) = toNumber (- int (foldl (\<lambda>acc c. acc * 10 + digitOf c) 0 s))"
proof -
  obtain c r where s: "s = c # r" using assms(1) by (cases s) auto
  have c: "radixDigit 10 c" using assms(2) s by simp
  have pre: "stripPrefix s = (10, s)"
    using assms(2) by (simp add: stripPrefix_decimal)
  have all: "takeWhile (radixDigit 10) s = s"
    using assms(2) by (simp add: takeWhile_eq_all_conv)
  have "skipWhiteSpace s = s"
    using skipWhiteSpace_digit [OF c] s by simp
  moreover have "stripSign s = (False, s)"
    using radixDigit_plain(1,2) [OF c] s by (simp add: stripSign_def)
  ultimately show "parseInt s = toNumber (int (foldl (\<lambda>acc c. acc * 10 + digitOf c) 0 s))"
    using pre assms(1) by (simp add: parseInt_def Let_def all)
  have "stripSign (CHR ''-'' # s) = (True, s)"
    by (simp add: stripSign_def)
  then show "parseInt (CHR ''-'' # s)
      = toNumber (- int (foldl (\<lambda>acc c. acc * 10 + digitOf c) 0 s))"
    using pre assms(1) by (simp add: parseInt_def Let_def all skipWhiteSpace_minus)
qed

lemma numberToString_decimal:
  assumes "\<bar>n\<bar> < 1000000000000000000000"
  shows "numberToString (Integer n)
           = (if n < 0 then CHR ''-'' # decimal (nat (- n)) else decimal (nat n))"
  using assms by (auto simp: naturalToString_def numberToString.simps)

lemma parseInt_numberToString:
  assumes "\<bar>n\<bar> < 1000000000000000000000"
  shows "parseInt (numberToString (Integer n)) = toNumber n"
proof (cases "n < 0")
  case True
  then show ?thesis
    using parseInt_digits(2) [of "decimal (nat (- n))"] decimal_digits decimal_not_empty
    by (simp add: numberToString_decimal [OF assms] decimal_value)
next
  case False
  then show ?thesis
    using parseInt_digits(1) [of "decimal (nat n)"] decimal_digits decimal_not_empty
    by (simp add: numberToString_decimal [OF assms] decimal_value)
qed

lemma static_number:
  assumes "\<bar>n\<bar> < 9007199254740992"
  shows "parseInt (numberToString (Integer n)) = Integer n"
proof -
  have "\<bar>n\<bar> < 1000000000000000000000"
    using assms by simp
  then show ?thesis
    using assms by (simp add: parseInt_numberToString toNumber_exact)
qed

lemma parseInt_NaN: "(parseInt s = NaN) = noLeadingNumeral s"
proof -
  obtain negative s1 where sign: "stripSign (skipWhiteSpace s) = (negative, s1)"
    by (cases "stripSign (skipWhiteSpace s)")
  obtain R s2 where pre: "stripPrefix s1 = (R, s2)"
    by (cases "stripPrefix s1")
  have "(takeWhile (radixDigit R) s2 = []) = (case s2 of [] \<Rightarrow> True | c # r \<Rightarrow> \<not> radixDigit R c)"
    by (cases s2) auto
  then show ?thesis
    using sign pre by (simp add: parseInt_def noLeadingNumeral_def Let_def toNumber_not_NaN)
qed












section \<open>Properties of the generated script\<close>

lemma getConcurrency_resolved:
  "fst (getConcurrency verbose func envVars) =
     (case resolvedOverride func envVars of
        Some v \<Rightarrow> parseInt v
      | None \<Rightarrow> parseInt (numberToString (Integer (concurrency (config func)))))"
  by (simp add: getConcurrency_def resolvedOverride_def Let_def split: option.splits)

lemma getConcurrency_events:
  "filter isError (snd (getConcurrency verbose func envVars)) = []"
  "snd (getConcurrency False func envVars) = []"
  by (simp_all add: getConcurrency_def logVerbose_def Let_def split: option.splits)

lemma firstRejection_None: "(firstRejection ps = None) = (\<forall>p \<in> set ps. \<not> isl (snd p))"
proof (induction ps rule: firstRejection.induct)
  case 1
  show ?case by simp
next
  case (2 t v ps)
  then show ?case by simp
next
  case (3 t e ps)
  then show ?case by (simp split: option.splits)
qed

lemma promiseAll_rejected: "isl (snd (promiseAll ps)) = (\<exists>p \<in> set ps. isl (snd p))"
proof (cases "firstRejection ps")
  case None
  then show ?thesis
    using firstRejection_None [of ps] by (simp add: promiseAll_def)
next
  case (Some a)
  then show ?thesis
    using firstRejection_None [of ps] by (cases a) (simp add: promiseAll_def)
qed

lemma fulfilledValues_all:
  "\<forall>p \<in> set ps. \<not> isl (snd p) \<Longrightarrow> fulfilledValues ps = map (\<lambda>p. projr (snd p)) ps"
  by (induction ps rule: fulfilledValues.induct) simp_all

lemma promiseAll_fulfilled:
  assumes "\<forall>p \<in> set ps. \<not> isl (snd p)"
  shows "snd (promiseAll ps) = Inr (map (\<lambda>p. projr (snd p)) ps)"
  using assms firstRejection_None [of ps] by (simp add: promiseAll_def fulfilledValues_all)

lemma send_rejected: "isl (snd (send lambdaClient i k command)) = isl (snd (lambdaClient i k command))"
  by (simp add: send_def split: prod.splits)

lemma batch_rejected:
  "isl (snd (promiseAll (map (\<lambda>k. send lambdaClient i k command) [0..<n])))
     = list_ex (\<lambda>k. isl (snd (lambdaClient i k command))) [0..<n]"
  by (simp add: promiseAll_rejected send_rejected list_ex_iff)

lemma warmFunction_issued:
  "issued (warmFunction verbose lambdaClient envVars i func) =
     (case arrayOfLength (fst (getConcurrency verbose func envVars)) of
        Inl e \<Rightarrow> []
      | Inr n \<Rightarrow> replicate n (invokeCommand func envVars))"
  by (simp add: warmFunction_def Let_def split: prod.splits sum.splits)

lemma warmFunction_settles:
  "snd (settles (warmFunction verbose lambdaClient envVars i func))
     = Inr (\<not> batchFails lambdaClient envVars i func)"
proof -
  obtain resolved lines where g: "getConcurrency verbose func envVars = (resolved, lines)"
    by (cases "getConcurrency verbose func envVars")
  have r: "fst (getConcurrency False func envVars) = resolved"
    using g getConcurrency_resolved [of verbose func envVars]
      getConcurrency_resolved [of False func envVars] by simp
  show ?thesis
  proof (cases "arrayOfLength resolved")
    case (Inl e)
    then show ?thesis
      by (simp add: warmFunction_def g batchFails_def r)
  next
    case (Inr n)
    obtain t res where p:
      "promiseAll (map (\<lambda>k. send lambdaClient i k (invokeCommand func envVars)) [0..<n]) = (t, res)"
      by (cases "promiseAll (map (\<lambda>k. send lambdaClient i k (invokeCommand func envVars)) [0..<n])")
    have "isl res = list_ex (\<lambda>k. isl (snd (lambdaClient i k (invokeCommand func envVars)))) [0..<n]"
      using batch_rejected [of lambdaClient i "invokeCommand func envVars" n] p by simp
    then show ?thesis
      using Inr by (cases res) (simp_all add: warmFunction_def g batchFails_def r p)
  qed
qed

lemma warmFunction_error_logged:
  assumes "batchFails lambdaClient envVars i func"
  shows "\<exists>e. ConsoleError (''Warm Up Invoke Error: '' @ funcName func) e
           \<in> set (syncEvents (warmFunction verbose lambdaClient envVars i func))
             \<union> snd ` set (lateEvents (warmFunction verbose lambdaClient envVars i func))"
proof -
  obtain resolved lines where g: "getConcurrency verbose func envVars = (resolved, lines)"
    by (cases "getConcurrency verbose func envVars")
  have r: "fst (getConcurrency False func envVars) = resolved"
    using g getConcurrency_resolved [of verbose func envVars]
      getConcurrency_resolved [of False func envVars] by simp
  show ?thesis
  proof (cases "arrayOfLength resolved")
    case (Inl e)
    then show ?thesis
      by (auto simp: warmFunction_def g)
  next
    case (Inr n)
    obtain t res where p:
      "promiseAll (map (\<lambda>k. send lambdaClient i k (invokeCommand func envVars)) [0..<n]) = (t, res)"
      by (cases "promiseAll (map (\<lambda>k. send lambdaClient i k (invokeCommand func envVars)) [0..<n])")
    have "isl res"
      using batch_rejected [of lambdaClient i "invokeCommand func envVars" n] p assms Inr
      by (simp add: batchFails_def r)
    then show ?thesis
      using Inr by (cases res) (auto simp: warmFunction_def g p)
  qed
qed

lemma warmFunction_errors_verbose:
  "filter isError (syncEvents (warmFunction verbose lambdaClient envVars i func))
     = syncEvents (warmFunction False lambdaClient envVars i func)"
  "filter (\<lambda>p. isError (snd p)) (lateEvents (warmFunction verbose lambdaClient envVars i func))
     = lateEvents (warmFunction False lambdaClient envVars i func)"
proof -
  obtain resolved lines where g: "getConcurrency verbose func envVars = (resolved, lines)"
    by (cases "getConcurrency verbose func envVars")
  have q: "getConcurrency False func envVars = (resolved, [])"
    using g getConcurrency_resolved [of verbose func envVars]
      getConcurrency_resolved [of False func envVars] getConcurrency_events(2) [of func envVars]
    by (cases "getConcurrency False func envVars") simp
  have l: "filter isError lines = []"
    using getConcurrency_events(1) [of verbose func envVars] g by simp
  show "filter isError (syncEvents (warmFunction verbose lambdaClient envVars i func))
     = syncEvents (warmFunction False lambdaClient envVars i func)"
    using l by (simp add: warmFunction_def g q Let_def split: sum.splits prod.splits)
  show "filter (\<lambda>p. isError (snd p)) (lateEvents (warmFunction verbose lambdaClient envVars i func))
     = lateEvents (warmFunction False lambdaClient envVars i func)"
    by (simp add: warmFunction_def g q Let_def logVerbose_def split: sum.splits prod.splits)
qed

lemma settles_fulfilled:
  "\<forall>p \<in> set (map settles (map (\<lambda>(i, func). warmFunction verbose lambdaClient envVars i func)
                                   (enumerate 0 funcs))). \<not> isl (snd p)"
  by (auto simp: warmFunction_settles)

lemma warmUp_run:
  "batches (warmUp verbose lambdaClient envVars funcs)
     = map (\<lambda>(i, func). warmFunction verbose lambdaClient envVars i func) (enumerate 0 funcs)"
  "invokes (warmUp verbose lambdaClient envVars funcs)
     = map (\<lambda>(i, func). \<not> batchFails lambdaClient envVars i func) (enumerate 0 funcs)"
  "finished (warmUp verbose lambdaClient envVars funcs) = Returned"
proof -
  let ?bs = "map (\<lambda>(i, func). warmFunction verbose lambdaClient envVars i func) (enumerate 0 funcs)"
  obtain t res where p: "promiseAll (map settles ?bs) = (t, res)"
    by (cases "promiseAll (map settles ?bs)")
  have "res = Inr (map (\<lambda>p. projr (snd p)) (map settles ?bs))"
    using promiseAll_fulfilled [OF settles_fulfilled, of verbose lambdaClient envVars funcs] p
    by simp
  then have res: "res = Inr (map (\<lambda>(i, func). \<not> batchFails lambdaClient envVars i func)
                               (enumerate 0 funcs))"
    by (simp add: warmFunction_settles case_prod_unfold)
  show "batches (warmUp verbose lambdaClient envVars funcs)
     = map (\<lambda>(i, func). warmFunction verbose lambdaClient envVars i func) (enumerate 0 funcs)"
    using p res by (simp add: warmUp_def Let_def)
  show "invokes (warmUp verbose lambdaClient envVars funcs)
     = map (\<lambda>(i, func). \<not> batchFails lambdaClient envVars i func) (enumerate 0 funcs)"
    using p res by (simp add: warmUp_def Let_def)
  show "finished (warmUp verbose lambdaClient envVars funcs) = Returned"
    using p res by (simp add: warmUp_def Let_def)
qed

lemma warmUp_console:
  "console (warmUp verbose lambdaClient envVars funcs) =
     logVerbose verbose ''Warm Up Start''
     @ concat (map syncEvents (batches (warmUp verbose lambdaClient envVars funcs)))
     @ map snd (sort_key fst
         (concat (map lateEvents (batches (warmUp verbose lambdaClient envVars funcs)))))
     @ logVerbose verbose (''Warm Up Finished with ''
         @ numberToString (Integer (int (invokeErrors
             (invokes (warmUp verbose lambdaClient envVars funcs)))))
         @ '' invoke errors'')"
proof -
  let ?bs = "map (\<lambda>(i, func). warmFunction verbose lambdaClient envVars i func) (enumerate 0 funcs)"
  obtain t res where p: "promiseAll (map settles ?bs) = (t, res)"
    by (cases "promiseAll (map settles ?bs)")
  have "\<not> isl res"
    using promiseAll_rejected [of "map settles ?bs"] settles_fulfilled [of verbose lambdaClient envVars funcs] p
    by auto
  then obtain rs where "res = Inr rs" by (cases res) auto
  then show ?thesis
    using p by (simp add: warmUp_def Let_def)
qed

lemma warmUp_nth:
  assumes "i < length funcs"
  shows "batches (warmUp verbose lambdaClient envVars funcs) ! i
           = warmFunction verbose lambdaClient envVars i (funcs ! i)"
    and "invokes (warmUp verbose lambdaClient envVars funcs) ! i
           = (\<not> batchFails lambdaClient envVars i (funcs ! i))"
  using assms by (simp_all add: warmUp_run nth_enumerate_eq)

lemma console_member:
  assumes "i < length funcs"
    and "e \<in> set (syncEvents (warmFunction verbose lambdaClient envVars i (funcs ! i)))
           \<union> snd ` set (lateEvents (warmFunction verbose lambdaClient envVars i (funcs ! i)))"
  shows "e \<in> set (console (warmUp verbose lambdaClient envVars funcs))"
proof -
  define bs where "bs = batches (warmUp verbose lambdaClient envVars funcs)"
  have len: "i < length bs"
    using assms(1) by (simp add: bs_def warmUp_run)
  have b: "bs ! i = warmFunction verbose lambdaClient envVars i (funcs ! i)"
    unfolding bs_def using assms(1) by (rule warmUp_nth)
  have mem: "bs ! i \<in> set bs"
    using len by (rule nth_mem)
  have "e \<in> set (concat (map syncEvents bs)) \<or> e \<in> snd ` set (concat (map lateEvents bs))"
  proof (cases "e \<in> set (syncEvents (bs ! i))")
    case True
    then have "e \<in> set (concat (map syncEvents bs))"
      using mem by auto
    then show ?thesis ..
  next
    case False
    then have "e \<in> snd ` set (lateEvents (bs ! i))"
      using assms(2) b by simp
    then have "e \<in> snd ` set (concat (map lateEvents bs))"
      using mem by auto
    then show ?thesis ..
  qed
  then show ?thesis
    unfolding bs_def by (subst warmUp_console) auto
qed

lemma invokeErrors_failing:
  "invokeErrors (invokes (warmUp verbose lambdaClient envVars funcs))
     = length (filter (\<lambda>(j, func). batchFails lambdaClient envVars j func) (enumerate 0 funcs))"
  by (simp add: warmUp_run invokeErrors_def filter_map comp_def case_prod_unfold)


lemma foo_variable: "concurrencyVariable (target ''foo'' c) = ''WARMUP_CONCURRENCY_FOO''"
  by code_simp

lemma target_fields:
  "funcName (target n c) = n"
  "concurrency (config (target n c)) = c"
  "resolvedOverride (target n c) Map.empty = None"
  by (simp_all add: target_def resolvedOverride_def)



text \<open>
  C4, as the code has it. For every function whose resolved override (the non-empty value
  of its own variable, or else of the global one) has no numeral for \<^verbatim>\<open>parseInt\<close> to read
  (after leading white space and an optional sign it does not start with a decimal digit,
  or it starts with \<^verbatim>\<open>0x\<close> or \<^verbatim>\<open>0X\<close> and no hexadecimal digit follows): \<^verbatim>\<open>parseInt\<close> gives
  \<^verbatim>\<open>NaN\<close>, which \<^verbatim>\<open>getConcurrency\<close> returns as it is; \<^verbatim>\<open>Array(NaN)\<close> throws inside the
  \<^verbatim>\<open>try\<close>, so no request is issued for the function, the error is written, the function
  contributes \<^verbatim>\<open>false\<close>, and the entry point still completes. These are all the overrides
  that \<^verbatim>\<open>parseInt\<close> reads as \<^verbatim>\<open>NaN\<close>.
\<close>

theorem override_without_numeral:
  assumes "i < length funcs"
    and "resolvedOverride (funcs ! i) envVars = Some v"
    and "noLeadingNumeral v"
  shows "parseInt v = NaN
       \<and> fst (getConcurrency verbose (funcs ! i) envVars) = NaN
       \<and> issued (batches (warmUp verbose lambdaClient envVars funcs) ! i) = []
       \<and> invokes (warmUp verbose lambdaClient envVars funcs) ! i = False
       \<and> ConsoleError (''Warm Up Invoke Error: '' @ funcName (funcs ! i)) RangeError
            \<in> set (console (warmUp verbose lambdaClient envVars funcs))
       \<and> finished (warmUp verbose lambdaClient envVars funcs) = Returned
       \<and> (\<forall>w. (parseInt w = NaN) = noLeadingNumeral w)"
proof -
  have parsed: "parseInt v = NaN"
    using assms(3) by (simp add: parseInt_NaN)
  have nan: "fst (getConcurrency verbose (funcs ! i) envVars) = NaN" for verbose
    using assms(2) parsed by (simp add: getConcurrency_resolved)
  have none: "issued (batches (warmUp verbose lambdaClient envVars funcs) ! i) = []"
    using assms(1) nan by (simp add: warmUp_nth warmFunction_issued)
  have fails: "batchFails lambdaClient envVars i (funcs ! i)"
    using nan [of False] by (simp add: batchFails_def)
  have false: "invokes (warmUp verbose lambdaClient envVars funcs) ! i = False"
    using assms(1) fails by (simp add: warmUp_nth)
  have "ConsoleError (''Warm Up Invoke Error: '' @ funcName (funcs ! i)) RangeError
          \<in> set (syncEvents (warmFunction verbose lambdaClient envVars i (funcs ! i)))"
    using nan [of verbose]
    by (cases "getConcurrency verbose (funcs ! i) envVars") (simp add: warmFunction_def)
  then have logged: "ConsoleError (''Warm Up Invoke Error: '' @ funcName (funcs ! i)) RangeError
          \<in> set (console (warmUp verbose lambdaClient envVars funcs))"
    using console_member [OF assms(1)] by blast
  show ?thesis
    using parsed nan none false logged by (simp add: warmUp_run parseInt_NaN)
qed

theorem override_without_numeral_witness:
  "resolvedOverride (target ''foo'' 5) [''WARMUP_CONCURRENCY_FOO'' \<mapsto> ''many''] = Some ''many''
 \<and> noLeadingNumeral ''many''
 \<and> fst (getConcurrency True (target ''foo'' 5) [''WARMUP_CONCURRENCY_FOO'' \<mapsto> ''many'']) = NaN
 \<and> issued (batches (warmUp True healthy [''WARMUP_CONCURRENCY_FOO'' \<mapsto> ''many'']
       [target ''foo'' 5]) ! 0) = []
 \<and> invokes (warmUp True healthy [''WARMUP_CONCURRENCY_FOO'' \<mapsto> ''many'']
       [target ''foo'' 5]) = [False]
 \<and> finished (warmUp True healthy [''WARMUP_CONCURRENCY_FOO'' \<mapsto> ''many'']
       [target ''foo'' 5]) = Returned"
proof -
  let ?env = "[''WARMUP_CONCURRENCY_FOO'' \<mapsto> ''many'']"
  have o: "resolvedOverride (target ''foo'' 5) ?env = Some ''many''"
    by (simp add: resolvedOverride_def foo_variable)
  have n: "noLeadingNumeral ''many''"
    by code_simp
  have len: "length (invokes (warmUp True healthy ?env [target ''foo'' 5])) = 1"
    by (simp add: warmUp_run)
  note run = override_without_numeral [of 0 "[target ''foo'' 5]" ?env "''many''" True healthy]
  have all: "fst (getConcurrency True ([target ''foo'' 5] ! 0) ?env) = NaN
       \<and> issued (batches (warmUp True healthy ?env [target ''foo'' 5]) ! 0) = []
       \<and> invokes (warmUp True healthy ?env [target ''foo'' 5]) ! 0 = False
       \<and> ConsoleError (''Warm Up Invoke Error: '' @ funcName ([target ''foo'' 5] ! 0)) RangeError
            \<in> set (console (warmUp True healthy ?env [target ''foo'' 5]))
       \<and> finished (warmUp True healthy ?env [target ''foo'' 5]) = Returned"
    using run o n by simp
  then have "invokes (warmUp True healthy ?env [target ''foo'' 5]) ! 0 = False"
    by simp
  with len have inv: "invokes (warmUp True healthy ?env [target ''foo'' 5]) = [False]"
    by (cases "invokes (warmUp True healthy ?env [target ''foo'' 5])") auto
  show ?thesis
    using all o n inv by simp
qed

theorem override_without_numeral_counterexample:
  "\<not> numericString ''12abc''
 \<and> resolvedOverride (target ''foo'' 5) [''WARMUP_CONCURRENCY_FOO'' \<mapsto> ''12abc''] = Some ''12abc''
 \<and> fst (getConcurrency True (target ''foo'' 5) [''WARMUP_CONCURRENCY_FOO'' \<mapsto> ''12abc''])
      = Integer 12
 \<and> length (issued (batches (warmUp True healthy [''WARMUP_CONCURRENCY_FOO'' \<mapsto> ''12abc'']
       [target ''foo'' 5]) ! 0)) = 12"
proof -
  let ?env = "[''WARMUP_CONCURRENCY_FOO'' \<mapsto> ''12abc'']"
  have a: "\<not> numericString ''12abc''"
    by (simp add: numericString_def radixDigit_def digitValue_def)
  have p: "parseInt ''12abc'' = Integer 12"
    by code_simp
  have o: "resolvedOverride (target ''foo'' 5) ?env = Some ''12abc''"
    by (simp add: resolvedOverride_def foo_variable)
  have g: "fst (getConcurrency True (target ''foo'' 5) ?env) = Integer 12"
    by (simp add: getConcurrency_resolved o p)
  have "length (issued (batches (warmUp True healthy ?env [target ''foo'' 5]) ! 0)) = 12"
    by (simp add: warmUp_nth warmFunction_issued g)
  with a o g show ?thesis by simp
qed

text \<open>
  C10. For every function whose resolved concurrency is \<open>0\<close>, no request is issued, the
  function contributes \<^verbatim>\<open>true\<close>, and the count of failures is the count over the other
  functions.
\<close>

theorem zero_concurrency_succeeds:
  assumes "i < length funcs"
    and "fst (getConcurrency verbose (funcs ! i) envVars) = Integer 0"
  shows "issued (batches (warmUp verbose lambdaClient envVars funcs) ! i) = []
       \<and> invokes (warmUp verbose lambdaClient envVars funcs) ! i = True
       \<and> invokeErrors (invokes (warmUp verbose lambdaClient envVars funcs))
           = invokeErrors (take i (invokes (warmUp verbose lambdaClient envVars funcs)))
             + invokeErrors (drop (Suc i) (invokes (warmUp verbose lambdaClient envVars funcs)))"
proof -
  define rs where "rs = invokes (warmUp verbose lambdaClient envVars funcs)"
  have zero: "fst (getConcurrency False (funcs ! i) envVars) = Integer 0"
    using assms(2) by (simp add: getConcurrency_resolved)
  have none: "issued (batches (warmUp verbose lambdaClient envVars funcs) ! i) = []"
    using assms by (simp add: warmUp_nth warmFunction_issued)
  have ok: "rs ! i = True"
    unfolding rs_def using assms(1) zero by (simp add: warmUp_nth batchFails_def)
  have len: "i < length rs"
    unfolding rs_def using assms(1) by (simp add: warmUp_run)
  have "rs = take i rs @ rs ! i # drop (Suc i) rs"
    using len by (rule id_take_nth_drop)
  then have "invokeErrors rs = invokeErrors (take i rs @ True # drop (Suc i) rs)"
    using ok by simp
  then have "invokeErrors rs = invokeErrors (take i rs) + invokeErrors (drop (Suc i) rs)"
    by (simp add: invokeErrors_def)
  then show ?thesis
    using none ok by (simp add: rs_def)
qed

theorem zero_concurrency_succeeds_witness:
  "fst (getConcurrency True (target ''foo'' 5) [''WARMUP_CONCURRENCY_FOO'' \<mapsto> ''0'']) = Integer 0
 \<and> issued (batches (warmUp True healthy [''WARMUP_CONCURRENCY_FOO'' \<mapsto> ''0'']
       [target ''foo'' 5]) ! 0) = []
 \<and> invokes (warmUp True healthy [''WARMUP_CONCURRENCY_FOO'' \<mapsto> ''0''] [target ''foo'' 5]) ! 0
 \<and> invokeErrors (invokes (warmUp True healthy [''WARMUP_CONCURRENCY_FOO'' \<mapsto> ''0'']
       [target ''foo'' 5])) = 0"
proof -
  let ?env = "[''WARMUP_CONCURRENCY_FOO'' \<mapsto> ''0'']"
  have p: "parseInt ''0'' = Integer 0"
    by code_simp
  have g: "fst (getConcurrency True (target ''foo'' 5) ?env) = Integer 0"
    by (simp add: getConcurrency_resolved resolvedOverride_def foo_variable p)
  have len: "length (invokes (warmUp True healthy ?env [target ''foo'' 5])) = 1"
    by (simp add: warmUp_run)
  show ?thesis
    using zero_concurrency_succeeds [of 0 "[target ''foo'' 5]" True ?env healthy] g len
    by (simp add: invokeErrors_def)
qed

lemma batchFails_place:
  assumes "\<forall>k command. other i k command = lambdaClient i k command"
  shows "batchFails other envVars i func = batchFails lambdaClient envVars i func"
  using assms by (auto simp: batchFails_def list_ex_iff split: sum.splits)

lemma foo_then_bar:
  "\<not> batchFails failingSecond Map.empty 0 (target ''foo'' 2)"
  "batchFails failingSecond Map.empty (Suc 0) (target ''bar'' 1)"
  by (simp_all add: batchFails_def getConcurrency_resolved target_fields static_number
        failingSecond_def list_ex_iff)

text \<open>
  C5, as the code has it. For every function list and every place \<open>i\<close> in it: when the batch
  of the function at \<open>i\<close> fails, an error line with the function's name is written with
  \<^verbatim>\<open>console.error\<close> and the function contributes \<^verbatim>\<open>false\<close>; what a function contributes
  depends only on the answers to its own \<^verbatim>\<open>send\<close> calls, so a failure elsewhere leaves it
  unchanged; the entry point never rejects; the number of \<^verbatim>\<open>false\<close> results is the number
  of failing batches, and it is reported, in the last line written, when the script was
  generated with \<^verbatim>\<open>verbose\<close> set.
\<close>

theorem failure_isolation:
  assumes "i < length funcs"
  shows "(batchFails lambdaClient envVars i (funcs ! i) \<longrightarrow>
            (\<exists>e. ConsoleError (''Warm Up Invoke Error: '' @ funcName (funcs ! i)) e
                   \<in> set (console (warmUp verbose lambdaClient envVars funcs)))
            \<and> invokes (warmUp verbose lambdaClient envVars funcs) ! i = False)
       \<and> (\<forall>other. (\<forall>k command. other i k command = lambdaClient i k command) \<longrightarrow>
            invokes (warmUp verbose other envVars funcs) ! i
              = invokes (warmUp verbose lambdaClient envVars funcs) ! i)
       \<and> finished (warmUp verbose lambdaClient envVars funcs) = Returned
       \<and> invokeErrors (invokes (warmUp verbose lambdaClient envVars funcs))
            = length (filter (\<lambda>(j, func). batchFails lambdaClient envVars j func)
                        (enumerate 0 funcs))
       \<and> (verbose \<longrightarrow>
            last (console (warmUp verbose lambdaClient envVars funcs))
              = ConsoleLog (''Warm Up Finished with ''
                  @ numberToString (Integer (int (invokeErrors
                      (invokes (warmUp verbose lambdaClient envVars funcs)))))
                  @ '' invoke errors''))"
proof -
  have c1: "batchFails lambdaClient envVars i (funcs ! i) \<longrightarrow>
            (\<exists>e. ConsoleError (''Warm Up Invoke Error: '' @ funcName (funcs ! i)) e
                   \<in> set (console (warmUp verbose lambdaClient envVars funcs)))
            \<and> invokes (warmUp verbose lambdaClient envVars funcs) ! i = False"
  proof
    assume fails: "batchFails lambdaClient envVars i (funcs ! i)"
    have "\<exists>e. ConsoleError (''Warm Up Invoke Error: '' @ funcName (funcs ! i)) e
                   \<in> set (console (warmUp verbose lambdaClient envVars funcs))"
      using warmFunction_error_logged [OF fails, of verbose] console_member [OF assms]
      by blast
    moreover have "invokes (warmUp verbose lambdaClient envVars funcs) ! i = False"
      using assms fails by (simp add: warmUp_nth)
    ultimately show "(\<exists>e. ConsoleError (''Warm Up Invoke Error: '' @ funcName (funcs ! i)) e
                   \<in> set (console (warmUp verbose lambdaClient envVars funcs)))
            \<and> invokes (warmUp verbose lambdaClient envVars funcs) ! i = False"
      by (rule conjI)
  qed
  have c2: "\<forall>other. (\<forall>k command. other i k command = lambdaClient i k command) \<longrightarrow>
            invokes (warmUp verbose other envVars funcs) ! i
              = invokes (warmUp verbose lambdaClient envVars funcs) ! i"
  proof (intro allI impI)
    fix other
    assume same: "\<forall>k command. other i k command = lambdaClient i k command"
    have "batchFails other envVars i (funcs ! i) = batchFails lambdaClient envVars i (funcs ! i)"
      using same by (rule batchFails_place)
    then show "invokes (warmUp verbose other envVars funcs) ! i
              = invokes (warmUp verbose lambdaClient envVars funcs) ! i"
      using assms by (simp add: warmUp_nth)
  qed
  have c3: "finished (warmUp verbose lambdaClient envVars funcs) = Returned"
    by (rule warmUp_run(3))
  have c4: "invokeErrors (invokes (warmUp verbose lambdaClient envVars funcs))
            = length (filter (\<lambda>(j, func). batchFails lambdaClient envVars j func)
                        (enumerate 0 funcs))"
    by (rule invokeErrors_failing)
  have c5: "verbose \<longrightarrow>
            last (console (warmUp verbose lambdaClient envVars funcs))
              = ConsoleLog (''Warm Up Finished with ''
                  @ numberToString (Integer (int (invokeErrors
                      (invokes (warmUp verbose lambdaClient envVars funcs)))))
                  @ '' invoke errors'')"
  proof
    assume verbose
    then show "last (console (warmUp verbose lambdaClient envVars funcs))
              = ConsoleLog (''Warm Up Finished with ''
                  @ numberToString (Integer (int (invokeErrors
                      (invokes (warmUp verbose lambdaClient envVars funcs)))))
                  @ '' invoke errors'')"
      by (subst warmUp_console) (simp add: logVerbose_def)
  qed
  from c1 c2 c3 c4 c5 show ?thesis
    by (intro conjI)
qed

theorem failure_isolation_witness:
  "batchFails failingSecond Map.empty 1 (target ''bar'' 1)
 \<and> (\<exists>e. ConsoleError ''Warm Up Invoke Error: bar'' e
        \<in> set (console (warmUp True failingSecond Map.empty [target ''foo'' 2, target ''bar'' 1])))
 \<and> invokes (warmUp True failingSecond Map.empty [target ''foo'' 2, target ''bar'' 1])
      = [True, False]
 \<and> finished (warmUp True failingSecond Map.empty [target ''foo'' 2, target ''bar'' 1]) = Returned
 \<and> last (console (warmUp True failingSecond Map.empty [target ''foo'' 2, target ''bar'' 1]))
      = ConsoleLog ''Warm Up Finished with 1 invoke errors''"
proof -
  let ?funcs = "[target ''foo'' 2, target ''bar'' 1]"
  have len: "1 < length ?funcs"
    by simp
  note run = failure_isolation [OF len, of failingSecond Map.empty True]
  have fails: "batchFails failingSecond Map.empty 1 (?funcs ! 1)"
    using foo_then_bar(2) by simp
  have inv: "invokes (warmUp True failingSecond Map.empty ?funcs) = [True, False]"
    by (simp add: warmUp_run foo_then_bar)
  have one: "numberToString (Integer 1) = ''1''"
    by code_simp
  have logged: "\<exists>e. ConsoleError ''Warm Up Invoke Error: bar'' e
        \<in> set (console (warmUp True failingSecond Map.empty ?funcs))"
    using run [THEN conjunct1] fails by (simp add: target_fields)
  have fin: "finished (warmUp True failingSecond Map.empty ?funcs) = Returned"
    using run [THEN conjunct2, THEN conjunct2, THEN conjunct1] .
  have summary: "last (console (warmUp True failingSecond Map.empty ?funcs))
      = ConsoleLog ''Warm Up Finished with 1 invoke errors''"
    using run [THEN conjunct2, THEN conjunct2, THEN conjunct2, THEN conjunct2]
    by (simp add: inv invokeErrors_def one)
  from foo_then_bar(2) logged inv fin summary show ?thesis
    by simp
qed

theorem failure_isolation_counterexample:
  "invokes (warmUp False failingSecond Map.empty [target ''foo'' 2, target ''bar'' 1])
     = [True, False]
 \<and> console (warmUp False failingSecond Map.empty [target ''foo'' 2, target ''bar'' 1])
     = [ConsoleError ''Warm Up Invoke Error: bar'' (InvokeError ''boom'')]"
  by code_simp

lemma console_errors:
  "filter isError (console (warmUp verbose lambdaClient envVars funcs))
     = console (warmUp False lambdaClient envVars funcs)"
proof -
  have late: "filter isError (map snd (sort_key fst xs))
                = map snd (sort_key fst (filter (\<lambda>p. isError (snd p)) xs))"
    for xs :: "(nat \<times> event) list"
    by (simp add: filter_map comp_def filter_sort)
  have quiet: "filter isError (logVerbose v s) = []" for v s
    by (simp add: logVerbose_def)
  show ?thesis
    by (simp add: warmUp_console [of verbose] warmUp_console [of False] warmUp_run(1)
          late quiet filter_concat comp_def case_prod_unfold warmFunction_errors_verbose
          logVerbose_def
       )
qed

text \<open>
  C9. A script generated with \<^verbatim>\<open>verbose\<close> unset writes nothing with \<^verbatim>\<open>console.log\<close>:
  no success line and no summary. What is written with \<^verbatim>\<open>console.error\<close> is the same
  with the flag set or unset, and every failing batch has its error line there.
\<close>

theorem quiet_script_still_reports_errors:
  "filter (\<lambda>e. \<not> isError e) (console (warmUp False lambdaClient envVars funcs)) = []
 \<and> filter isError (console (warmUp verbose lambdaClient envVars funcs))
      = console (warmUp False lambdaClient envVars funcs)
 \<and> (\<forall>i < length funcs. batchFails lambdaClient envVars i (funcs ! i) \<longrightarrow>
       (\<exists>e. ConsoleError (''Warm Up Invoke Error: '' @ funcName (funcs ! i)) e
              \<in> set (console (warmUp False lambdaClient envVars funcs))))"
proof -
  have all: "filter isError (console (warmUp False lambdaClient envVars funcs))
               = console (warmUp False lambdaClient envVars funcs)"
    by (rule console_errors)
  then have "\<forall>e \<in> set (console (warmUp False lambdaClient envVars funcs)). isError e"
    by (simp add: filter_id_conv)
  then have c1: "filter (\<lambda>e. \<not> isError e) (console (warmUp False lambdaClient envVars funcs)) = []"
    by (simp add: filter_empty_conv)
  have c2: "filter isError (console (warmUp verbose lambdaClient envVars funcs))
      = console (warmUp False lambdaClient envVars funcs)"
    by (rule console_errors)
  have c3: "\<forall>i < length funcs. batchFails lambdaClient envVars i (funcs ! i) \<longrightarrow>
       (\<exists>e. ConsoleError (''Warm Up Invoke Error: '' @ funcName (funcs ! i)) e
              \<in> set (console (warmUp False lambdaClient envVars funcs)))"
  proof (intro allI impI)
    fix i
    assume i: "i < length funcs" and fails: "batchFails lambdaClient envVars i (funcs ! i)"
    show "\<exists>e. ConsoleError (''Warm Up Invoke Error: '' @ funcName (funcs ! i)) e
              \<in> set (console (warmUp False lambdaClient envVars funcs))"
      using warmFunction_error_logged [OF fails, of False] console_member [OF i]
      by blast
  qed
  from c1 c2 c3 show ?thesis
    by (intro conjI)
qed

theorem quiet_script_still_reports_errors_witness:
  "console (warmUp False failingSecond Map.empty [target ''foo'' 2, target ''bar'' 1])
     = [ConsoleError ''Warm Up Invoke Error: bar'' (InvokeError ''boom'')]
 \<and> filter isError (console (warmUp True failingSecond Map.empty
       [target ''foo'' 2, target ''bar'' 1]))
     = [ConsoleError ''Warm Up Invoke Error: bar'' (InvokeError ''boom'')]
 \<and> batchFails failingSecond Map.empty 1 (target ''bar'' 1)
 \<and> (\<exists>e. ConsoleError ''Warm Up Invoke Error: bar'' e
        \<in> set (console (warmUp False failingSecond Map.empty
              [target ''foo'' 2, target ''bar'' 1])))"
proof -
  let ?funcs = "[target ''foo'' 2, target ''bar'' 1]"
  note quiet = quiet_script_still_reports_errors [of failingSecond Map.empty ?funcs True]
  have out: "console (warmUp False failingSecond Map.empty ?funcs)
     = [ConsoleError ''Warm Up Invoke Error: bar'' (InvokeError ''boom'')]"
    by code_simp
  have errs: "filter isError (console (warmUp True failingSecond Map.empty ?funcs))
     = [ConsoleError ''Warm Up Invoke Error: bar'' (InvokeError ''boom'')]"
    using quiet [THEN conjunct2, THEN conjunct1] out by simp
  have "Suc 0 < length ?funcs \<longrightarrow> batchFails failingSecond Map.empty (Suc 0) (?funcs ! Suc 0) \<longrightarrow>
       (\<exists>e. ConsoleError (''Warm Up Invoke Error: '' @ funcName (?funcs ! Suc 0)) e
              \<in> set (console (warmUp False failingSecond Map.empty ?funcs)))"
    using quiet [THEN conjunct2, THEN conjunct2] by blast
  then have logged: "\<exists>e. ConsoleError ''Warm Up Invoke Error: bar'' e
        \<in> set (console (warmUp False failingSecond Map.empty ?funcs))"
    using foo_then_bar(2) by (simp add: target_fields)
  from out errs foo_then_bar(2) logged show ?thesis
    by simp
qed

text \<open>
  C6, as the code has it. For every function target the invocation request has the
  function's name, the type \<^verbatim>\<open>RequestResponse\<close>, the log type \<^verbatim>\<open>None\<close> and the configured
  payload as it is. Its client context comes from \<^verbatim>\<open>config.clientContext\<close>, or from
  \<^verbatim>\<open>config.payload\<close> when the former is undefined: a non-empty value is wrapped as
  \<^verbatim>\<open>{"custom":<value>}\<close> and base64-encoded; the header is left out when both are undefined,
  and also when the chosen value is the empty string. The qualifier is \<^verbatim>\<open>config.alias\<close>
  when that is a non-empty string, and \<^verbatim>\<open>SERVERLESS_ALIAS\<close> otherwise. With no empty string
  among the three fields the request is the one the specification words, and every
  request issued for the function is this one.
\<close>

theorem invocation_request:
  "FunctionName (invokeCommand func envVars) = funcName func
 \<and> InvocationType (invokeCommand func envVars) = ''RequestResponse''
 \<and> LogType (invokeCommand func envVars) = ''None''
 \<and> Payload (invokeCommand func envVars) = payload (config func)
 \<and> (\<forall>c. clientContext (config func) = Some c \<and> c \<noteq> [] \<longrightarrow>
        ClientContext (invokeCommand func envVars)
          = Some (base64 (''{'' @ [CHR 0x22] @ ''custom'' @ [CHR 0x22] @ '':'' @ c @ ''}'')))
 \<and> (\<forall>p. clientContext (config func) = None \<and> payload (config func) = Some p \<and> p \<noteq> [] \<longrightarrow>
        ClientContext (invokeCommand func envVars)
          = Some (base64 (''{'' @ [CHR 0x22] @ ''custom'' @ [CHR 0x22] @ '':'' @ p @ ''}'')))
 \<and> (clientContext (config func) = None \<and> payload (config func) = None \<longrightarrow>
        ClientContext (invokeCommand func envVars) = None)
 \<and> (clientContext (config func) = Some []
      \<or> (clientContext (config func) = None \<and> payload (config func) = Some []) \<longrightarrow>
        ClientContext (invokeCommand func envVars) = None)
 \<and> (\<forall>a. aliasName (config func) = Some a \<and> a \<noteq> [] \<longrightarrow>
        Qualifier (invokeCommand func envVars) = Some a)
 \<and> (aliasName (config func) = None \<or> aliasName (config func) = Some [] \<longrightarrow>
        Qualifier (invokeCommand func envVars) = envVars ''SERVERLESS_ALIAS'')
 \<and> (clientContext (config func) \<noteq> Some [] \<and> payload (config func) \<noteq> Some []
      \<and> aliasName (config func) \<noteq> Some [] \<longrightarrow>
        invokeCommand func envVars = statedCommand func envVars)
 \<and> (\<forall>verbose lambdaClient funcs i. i < length funcs \<longrightarrow>
        set (issued (batches (warmUp verbose lambdaClient envVars funcs) ! i))
          \<subseteq> {invokeCommand (funcs ! i) envVars})"
proof -
  have stated: "invokeCommand func envVars = statedCommand func envVars"
    if "clientContext (config func) \<noteq> Some []" and "payload (config func) \<noteq> Some []"
      and "aliasName (config func) \<noteq> Some []"
  proof -
    have t: "truthyString x = x" if "x \<noteq> Some []" for x :: "string option"
      using that by (cases x) auto
    have "(case clientContext (config func) of Some c \<Rightarrow> Some c | None \<Rightarrow> payload (config func))
            \<noteq> Some []"
      using that(1,2) by (cases "clientContext (config func)") auto
    then show ?thesis
      using that(3) by (simp add: invokeCommand_def statedCommand_def Let_def t)
  qed
  have sent: "set (issued (batches (warmUp verbose lambdaClient envVars funcs) ! i))
          \<subseteq> {invokeCommand (funcs ! i) envVars}"
    if "i < length funcs" for verbose lambdaClient funcs i
    using that by (auto simp: warmUp_nth warmFunction_issued split: sum.splits)
  have fields: "FunctionName (invokeCommand func envVars) = funcName func
 \<and> InvocationType (invokeCommand func envVars) = ''RequestResponse''
 \<and> LogType (invokeCommand func envVars) = ''None''
 \<and> Payload (invokeCommand func envVars) = payload (config func)"
    by (simp add: invokeCommand_def Let_def)
  have ctx: "(\<forall>c. clientContext (config func) = Some c \<and> c \<noteq> [] \<longrightarrow>
        ClientContext (invokeCommand func envVars)
          = Some (base64 (''{'' @ [CHR 0x22] @ ''custom'' @ [CHR 0x22] @ '':'' @ c @ ''}'')))
 \<and> (\<forall>p. clientContext (config func) = None \<and> payload (config func) = Some p \<and> p \<noteq> [] \<longrightarrow>
        ClientContext (invokeCommand func envVars)
          = Some (base64 (''{'' @ [CHR 0x22] @ ''custom'' @ [CHR 0x22] @ '':'' @ p @ ''}'')))
 \<and> (clientContext (config func) = None \<and> payload (config func) = None \<longrightarrow>
        ClientContext (invokeCommand func envVars) = None)
 \<and> (clientContext (config func) = Some []
      \<or> (clientContext (config func) = None \<and> payload (config func) = Some []) \<longrightarrow>
        ClientContext (invokeCommand func envVars) = None)"
    by (auto simp: invokeCommand_def Let_def)
  have qualifier: "(\<forall>a. aliasName (config func) = Some a \<and> a \<noteq> [] \<longrightarrow>
        Qualifier (invokeCommand func envVars) = Some a)
 \<and> (aliasName (config func) = None \<or> aliasName (config func) = Some [] \<longrightarrow>
        Qualifier (invokeCommand func envVars) = envVars ''SERVERLESS_ALIAS'')"
    by (auto simp: invokeCommand_def Let_def)
  from fields ctx qualifier stated sent show ?thesis
    by blast
qed

theorem invocation_request_witness:
  "clientContext (config withPayload) = None
 \<and> payload (config withPayload) = Some ''{}''
 \<and> ClientContext (invokeCommand withPayload Map.empty) = Some ''eyJjdXN0b20iOnt9fQ==''
 \<and> Qualifier (invokeCommand withPayload Map.empty) = Some ''live''
 \<and> Payload (invokeCommand withPayload Map.empty) = Some ''{}''
 \<and> invokeCommand withPayload Map.empty = statedCommand withPayload Map.empty
 \<and> set (issued (batches (warmUp False healthy Map.empty [withPayload]) ! 0))
      \<subseteq> {invokeCommand withPayload Map.empty}"
proof -
  note request = invocation_request [of withPayload Map.empty]
  have cfg: "clientContext (config withPayload) = None" "payload (config withPayload) = Some ''{}''"
    "aliasName (config withPayload) = Some ''live''"
    by (simp_all add: withPayload_def)
  have enc: "base64 (''{'' @ [CHR 0x22] @ ''custom'' @ [CHR 0x22] @ '':'' @ ''{}'' @ ''}'')
               = ''eyJjdXN0b20iOnt9fQ==''"
    by code_simp
  have c: "ClientContext (invokeCommand withPayload Map.empty) = Some ''eyJjdXN0b20iOnt9fQ==''"
    using request [THEN conjunct2, THEN conjunct2, THEN conjunct2, THEN conjunct2,
      THEN conjunct2, THEN conjunct1, rule_format, of "''{}''"] cfg enc
    by simp
  have q: "Qualifier (invokeCommand withPayload Map.empty) = Some ''live''"
    using request [THEN conjunct2, THEN conjunct2, THEN conjunct2, THEN conjunct2,
      THEN conjunct2, THEN conjunct2, THEN conjunct2, THEN conjunct2, THEN conjunct1,
      rule_format, of "''live''"] cfg
    by simp
  have p: "Payload (invokeCommand withPayload Map.empty) = Some ''{}''"
    using request [THEN conjunct2, THEN conjunct2, THEN conjunct2, THEN conjunct1] cfg
    by simp
  have s: "invokeCommand withPayload Map.empty = statedCommand withPayload Map.empty"
    using request [THEN conjunct2, THEN conjunct2, THEN conjunct2, THEN conjunct2,
      THEN conjunct2, THEN conjunct2, THEN conjunct2, THEN conjunct2, THEN conjunct2,
      THEN conjunct2, THEN conjunct1] cfg
    by simp
  have i: "set (issued (batches (warmUp False healthy Map.empty [withPayload]) ! 0))
      \<subseteq> {invokeCommand withPayload Map.empty}"
    using request [THEN conjunct2, THEN conjunct2, THEN conjunct2, THEN conjunct2,
      THEN conjunct2, THEN conjunct2, THEN conjunct2, THEN conjunct2, THEN conjunct2,
      THEN conjunct2, THEN conjunct2, rule_format, of 0 "[withPayload]" False healthy]
    by simp
  from cfg c q p s i show ?thesis
    by simp
qed

theorem invocation_request_counterexample:
  "clientContext (config emptyContext) = Some []
 \<and> ClientContext (invokeCommand emptyContext [''SERVERLESS_ALIAS'' \<mapsto> ''live'']) = None
 \<and> ClientContext (statedCommand emptyContext [''SERVERLESS_ALIAS'' \<mapsto> ''live''])
      = Some ''eyJjdXN0b20iOn0=''
 \<and> aliasName (config emptyContext) = Some []
 \<and> Qualifier (invokeCommand emptyContext [''SERVERLESS_ALIAS'' \<mapsto> ''live'']) = Some ''live''
 \<and> Qualifier (statedCommand emptyContext [''SERVERLESS_ALIAS'' \<mapsto> ''live'']) = Some []"
  by code_simp

section \<open>Properties of the artifact\<close>

lemma perform_within: "set (fst (perform w past todo)) \<subseteq> set past \<union> set todo"
proof (induction todo arbitrary: past)
  case Nil
  show ?case by simp
next
  case (Cons a todo)
  show ?case
  proof (cases "w past a")
    case None
    then show ?thesis
      using Cons.IH [of "past @ [a]"] by auto
  next
    case (Some e)
    then show ?thesis by auto
  qed
qed

lemma perform_unhindered:
  assumes "\<forall>past a. w past a = None"
  shows "perform w past todo = (past @ todo, Returned)"
  using assms by (induction todo arbitrary: past) simp_all

lemma written_script:
  assumes "WriteFile path script
             \<in> set (fst (createWarmUpFunctionArtifact pathJoin w funcs tracing verbose region
                           handlerFolder))"
  shows "path = pathJoin handlerFolder ''index.mjs''"
    and "script = warmUpFunction funcs tracing verbose region"
proof -
  have "WriteFile path script
          \<in> set (artifactSteps pathJoin funcs tracing verbose region handlerFolder)"
    using assms perform_within [of w "[]"]
    by (auto simp: createWarmUpFunctionArtifact_def)
  then show "path = pathJoin handlerFolder ''index.mjs''"
    and "script = warmUpFunction funcs tracing verbose region"
    by (auto simp: artifactSteps_def split: if_splits)
qed

text \<open>
  C7. For every input \<^verbatim>\<open>(functions, tracing, verbose, region, handlerFolder)\<close>: whatever
  the world does in two runs of \<^verbatim>\<open>createWarmUpFunctionArtifact\<close>, a script that is written
  in one and a script that is written in the other are the same text, at the same path:
  the rendering of the template on the inputs. Where no step fails the script is written
  and the call returns.
\<close>

theorem regeneration_same_script:
  "(\<forall>path1 script1 path2 script2.
       WriteFile path1 script1
         \<in> set (fst (createWarmUpFunctionArtifact pathJoin w1 funcs tracing verbose region
                       handlerFolder))
     \<and> WriteFile path2 script2
         \<in> set (fst (createWarmUpFunctionArtifact pathJoin w2 funcs tracing verbose region
                       handlerFolder))
     \<longrightarrow> script1 = script2 \<and> path1 = path2
         \<and> script1 = warmUpFunction funcs tracing verbose region)
 \<and> ((\<forall>past a. w1 past a = None) \<longrightarrow>
       WriteFile (pathJoin handlerFolder ''index.mjs'') (warmUpFunction funcs tracing verbose region)
         \<in> set (fst (createWarmUpFunctionArtifact pathJoin w1 funcs tracing verbose region
                       handlerFolder))
     \<and> snd (createWarmUpFunctionArtifact pathJoin w1 funcs tracing verbose region handlerFolder)
         = Returned)"
proof (intro conjI allI impI)
  fix path1 script1 path2 script2
  assume both: "WriteFile path1 script1
         \<in> set (fst (createWarmUpFunctionArtifact pathJoin w1 funcs tracing verbose region
                       handlerFolder))
     \<and> WriteFile path2 script2
         \<in> set (fst (createWarmUpFunctionArtifact pathJoin w2 funcs tracing verbose region
                       handlerFolder))"
  show "script1 = script2"
    using both written_script(2) by blast
  show "path1 = path2"
    using both written_script(1) by blast
  show "script1 = warmUpFunction funcs tracing verbose region"
    using both written_script(2) by blast
next
  assume calm: "\<forall>past a. w1 past a = None"
  show "WriteFile (pathJoin handlerFolder ''index.mjs'') (warmUpFunction funcs tracing verbose region)
         \<in> set (fst (createWarmUpFunctionArtifact pathJoin w1 funcs tracing verbose region
                       handlerFolder))"
    by (simp add: createWarmUpFunctionArtifact_def artifactSteps_def perform_unhindered [OF calm]
          del: perform.simps)
  show "snd (createWarmUpFunctionArtifact pathJoin w1 funcs tracing verbose region handlerFolder)
         = Returned"
    by (simp add: createWarmUpFunctionArtifact_def perform_unhindered [OF calm]
          del: perform.simps)
qed

theorem regeneration_same_script_witness:
  "WriteFile ''.warmup/index.mjs'' (warmUpFunction fooList True True ''us-east-1'')
     \<in> set (fst (createWarmUpFunctionArtifact slashJoin calm fooList True True ''us-east-1''
                   ''.warmup''))
 \<and> snd (createWarmUpFunctionArtifact slashJoin calm fooList True True ''us-east-1'' ''.warmup'')
     = Returned
 \<and> createWarmUpFunctionArtifact slashJoin offline fooList True True ''us-east-1'' ''.warmup''
     = ([Mkdir ''.warmup'',
         WriteFile ''.warmup/index.mjs'' (warmUpFunction fooList True True ''us-east-1'')],
        Threw (SystemError ''npm: not found''))
 \<and> embeddedFunctions fooList
     = join_str [CHR 0x0A]
         [''['',
          ''  {'',
          ''    '' @ [CHR 0x22] @ ''name'' @ [CHR 0x22] @ '': '' @ [CHR 0x22] @ ''foo''
             @ [CHR 0x22] @ '','',
          ''    '' @ [CHR 0x22] @ ''config'' @ [CHR 0x22] @ '': {'',
          ''      '' @ [CHR 0x22] @ ''concurrency'' @ [CHR 0x22] @ '': 5'',
          ''    }'',
          ''  }'',
          '']'']"
proof -
  note twice = regeneration_same_script [of slashJoin calm fooList True True "''us-east-1''"
      "''.warmup''" offline]
  have quiet: "\<forall>past a. calm past a = None"
    by (simp add: calm_def)
  have first: "WriteFile (slashJoin ''.warmup'' ''index.mjs'')
       (warmUpFunction fooList True True ''us-east-1'')
     \<in> set (fst (createWarmUpFunctionArtifact slashJoin calm fooList True True ''us-east-1''
                   ''.warmup''))
   \<and> snd (createWarmUpFunctionArtifact slashJoin calm fooList True True ''us-east-1'' ''.warmup'')
     = Returned"
    using twice [THEN conjunct2] quiet by blast
  have path: "slashJoin ''.warmup'' ''index.mjs'' = ''.warmup/index.mjs''"
    by (simp add: slashJoin_def)
  have second: "createWarmUpFunctionArtifact slashJoin offline fooList True True ''us-east-1''
       ''.warmup''
     = ([Mkdir ''.warmup'',
         WriteFile ''.warmup/index.mjs'' (warmUpFunction fooList True True ''us-east-1'')],
        Threw (SystemError ''npm: not found''))"
    by (simp add: createWarmUpFunctionArtifact_def artifactSteps_def path)
  have embedded: "embeddedFunctions fooList
     = join_str [CHR 0x0A]
         [''['',
          ''  {'',
          ''    '' @ [CHR 0x22] @ ''name'' @ [CHR 0x22] @ '': '' @ [CHR 0x22] @ ''foo''
             @ [CHR 0x22] @ '','',
          ''    '' @ [CHR 0x22] @ ''config'' @ [CHR 0x22] @ '': {'',
          ''      '' @ [CHR 0x22] @ ''concurrency'' @ [CHR 0x22] @ '': 5'',
          ''    }'',
          ''  }'',
          '']'']"
    by code_simp
  from first second embedded show ?thesis
    by (simp only: path)
qed

lemma join_str_sublist: "x \<in> set xs \<Longrightarrow> sublist x (join_str glue xs)"
proof (induction glue xs rule: join_str.induct)
  case (1 glue)
  then show ?case by simp
next
  case (2 glue p)
  then show ?case by simp
next
  case (3 glue p q ps)
  show ?case
  proof (cases "x = p")
    case True
    then show ?thesis by simp
  next
    case False
    then have "sublist x (join_str glue (q # ps))"
      using 3 by simp
    then obtain before after where "join_str glue (q # ps) = before @ x @ after"
      by (auto simp: sublist_def)
    then have "p @ glue @ join_str glue (q # ps) = (p @ glue @ before) @ x @ after"
      by simp
    then have "sublist x (p @ glue @ join_str glue (q # ps))"
      unfolding sublist_def by blast
    then show ?thesis by simp
  qed
qed

text \<open>
  C8. With tracing, the generated script contains the tracing fragment, whose one
  \<^verbatim>\<open>import\<close> names the module \<^verbatim>\<open>aws-xray-sdk\<close>, while the one package that the steps
  install is \<^verbatim>\<open>aws-xray-sdk-core\<close>: no module imported by the fragment is installed.
\<close>

theorem traced_import_is_not_installed:
  "importedModules (tracingFragment True) = [''aws-xray-sdk'']
 \<and> sublist (tracingFragment True) (warmUpFunction funcs True verbose region)
 \<and> installedPackages (artifactSteps pathJoin funcs True verbose region handlerFolder)
      = [''aws-xray-sdk-core'']
 \<and> set (importedModules (tracingFragment True))
      \<inter> set (installedPackages (artifactSteps pathJoin funcs True verbose region handlerFolder))
      = {}"
proof -
  have imported: "importedModules (tracingFragment True) = [''aws-xray-sdk'']"
    by code_simp
  have inside: "sublist (tracingFragment True) (warmUpFunction funcs True verbose region)"
    unfolding warmUpFunction_def by (rule join_str_sublist) simp
  have installed: "installedPackages (artifactSteps pathJoin funcs True verbose region handlerFolder)
      = [''aws-xray-sdk-core'']"
    by (simp add: artifactSteps_def)
  show ?thesis
    using imported inside installed by simp
qed

end
